theory Spec2Isabelle
  imports Main "HOL-Library.Char_ord" "HOL-Library.List_Lexorder" "HOL-Library.Sublist"
    "HOL-Library.Stream" "HOL-Library.Word"
begin

section \<open>The homework bot: a polling loop that relays review verdicts\<close>

text \<open>
  The development follows \<^verbatim>\<open>homework.py\<close> function by function. Python strings are
  modelled as their UTF-8 bytes (\<^typ>\<open>string\<close>): equality of byte lists is equality of the
  strings, and the lexicographic order of the bytes is Python's order of the code points.
  Calls of \<^verbatim>\<open>logging\<close> are left out: they neither return a value nor raise.
\<close>

subsection \<open>Decoded JSON values\<close>

text \<open>
  What \<^verbatim>\<open>response.json()\<close> can return: \<^verbatim>\<open>None\<close>, booleans, integers of any size,
  floats (the 64 bits of the IEEE double), strings, lists, and dicts in insertion order
  with one entry per key.
\<close>

datatype pyval =
    PNone
  | PBool bool
  | PInt (int_val: int)
  | PFloat "64 word"
  | PStr (str_val: string)
  | PList "pyval list"
  | PDict "(string \<times> pyval) list"

subsection \<open>Exceptions\<close>

text \<open>
  Modelled from the spec: the module \<^verbatim>\<open>exceptions\<close> of the repository, which declares
  \<^verbatim>\<open>RequestError\<close>, \<^verbatim>\<open>UnexpectedResponseData\<close> and \<^verbatim>\<open>MessageNotSent\<close>, is not among the
  sources. Following section 7 of the specification they are three distinct error kinds;
  they are taken to derive from \<^verbatim>\<open>Exception\<close> and from none of the built-in classes below.
  The other constructors are the built-in classes that the code raises or that the
  interpreter raises in it; \<open>OtherException\<close> stands for every other subclass of
  \<^verbatim>\<open>Exception\<close>. Each exception carries the argument it was constructed with.
\<close>

datatype exn =
    RequestError string
  | UnexpectedResponseData string
  | MessageNotSent string
  | TypeError string
  | KeyError string
  | ValueError string
  | IndexError string
  | OtherException string

text \<open>
  \<^verbatim>\<open>f"{error}"\<close> is \<^verbatim>\<open>str(error)\<close>: the argument itself, except for a \<^verbatim>\<open>KeyError\<close>, which
  shows the \<^verbatim>\<open>repr\<close> of its argument. Every argument of a \<^verbatim>\<open>KeyError\<close> of this program is
  a string of printable characters without apostrophe or backslash, whose \<^verbatim>\<open>repr\<close> is the
  string between two apostrophes.
\<close>

fun str_exn :: "exn \<Rightarrow> string" where
  "str_exn (RequestError m) = m"
| "str_exn (UnexpectedResponseData m) = m"
| "str_exn (MessageNotSent m) = m"
| "str_exn (TypeError m) = m"
| "str_exn (KeyError m) = [CHR 0x27] @ m @ [CHR 0x27]"
| "str_exn (ValueError m) = m"
| "str_exn (IndexError m) = m"
| "str_exn (OtherException m) = m"

text \<open>Sequencing of calls that may raise: the first exception ends the block.\<close>

definition and_then :: "exn + 'a \<Rightarrow> ('a \<Rightarrow> exn + 'b) \<Rightarrow> exn + 'b" where
  "and_then r f = (case r of Inl e \<Rightarrow> Inl e | Inr x \<Rightarrow> f x)"

subsection \<open>The string literals of the source\<close>

text \<open>The literal of line 147, in UTF-8: \<^verbatim>\<open>Ne vse peremennye okruzheniya dostupny\<close>
  (not all environment variables are available).\<close>

definition msg_no_tokens :: string where
  "msg_no_tokens =
    [CHR 0xD0, CHR 0x9D, CHR 0xD0, CHR 0xB5, CHR 0x20, CHR 0xD0, CHR 0xB2, CHR 0xD1,
     CHR 0x81, CHR 0xD0, CHR 0xB5, CHR 0x20, CHR 0xD0, CHR 0xBF, CHR 0xD0, CHR 0xB5,
     CHR 0xD1, CHR 0x80, CHR 0xD0, CHR 0xB5, CHR 0xD0, CHR 0xBC, CHR 0xD0, CHR 0xB5,
     CHR 0xD0, CHR 0xBD, CHR 0xD0, CHR 0xBD, CHR 0xD1, CHR 0x8B, CHR 0xD0, CHR 0xB5,
     CHR 0x20, CHR 0xD0, CHR 0xBE, CHR 0xD0, CHR 0xBA, CHR 0xD1, CHR 0x80, CHR 0xD1,
     CHR 0x83, CHR 0xD0, CHR 0xB6, CHR 0xD0, CHR 0xB5, CHR 0xD0, CHR 0xBD, CHR 0xD0,
     CHR 0xB8, CHR 0xD1, CHR 0x8F, CHR 0x20, CHR 0xD0, CHR 0xB4, CHR 0xD0, CHR 0xBE,
     CHR 0xD1, CHR 0x81, CHR 0xD1, CHR 0x82, CHR 0xD1, CHR 0x83, CHR 0xD0, CHR 0xBF,
     CHR 0xD0, CHR 0xBD, CHR 0xD1, CHR 0x8B]"

text \<open>The literal of line 46, in UTF-8: \<^verbatim>\<open>Oshibka pri otpravke: \<close>
  (error while sending: ).\<close>

definition msg_send_failed :: string where
  "msg_send_failed =
    [CHR 0xD0, CHR 0x9E, CHR 0xD1, CHR 0x88, CHR 0xD0, CHR 0xB8, CHR 0xD0, CHR 0xB1,
     CHR 0xD0, CHR 0xBA, CHR 0xD0, CHR 0xB0, CHR 0x20, CHR 0xD0, CHR 0xBF, CHR 0xD1,
     CHR 0x80, CHR 0xD0, CHR 0xB8, CHR 0x20, CHR 0xD0, CHR 0xBE, CHR 0xD1, CHR 0x82,
     CHR 0xD0, CHR 0xBF, CHR 0xD1, CHR 0x80, CHR 0xD0, CHR 0xB0, CHR 0xD0, CHR 0xB2,
     CHR 0xD0, CHR 0xBA, CHR 0xD0, CHR 0xB5, CHR 0x3A, CHR 0x20]"

text \<open>The literal of line 61, in UTF-8: \<^verbatim>\<open>Oshibka pri sovershenii zaprosa k API: \<close>
  (error while requesting the API: ).\<close>

definition msg_request_failed :: string where
  "msg_request_failed =
    [CHR 0xD0, CHR 0x9E, CHR 0xD1, CHR 0x88, CHR 0xD0, CHR 0xB8, CHR 0xD0, CHR 0xB1,
     CHR 0xD0, CHR 0xBA, CHR 0xD0, CHR 0xB0, CHR 0x20, CHR 0xD0, CHR 0xBF, CHR 0xD1,
     CHR 0x80, CHR 0xD0, CHR 0xB8, CHR 0x20, CHR 0xD1, CHR 0x81, CHR 0xD0, CHR 0xBE,
     CHR 0xD0, CHR 0xB2, CHR 0xD0, CHR 0xB5, CHR 0xD1, CHR 0x80, CHR 0xD1, CHR 0x88,
     CHR 0xD0, CHR 0xB5, CHR 0xD0, CHR 0xBD, CHR 0xD0, CHR 0xB8, CHR 0xD0, CHR 0xB8,
     CHR 0x20, CHR 0xD0, CHR 0xB7, CHR 0xD0, CHR 0xB0, CHR 0xD0, CHR 0xBF, CHR 0xD1,
     CHR 0x80, CHR 0xD0, CHR 0xBE, CHR 0xD1, CHR 0x81, CHR 0xD0, CHR 0xB0, CHR 0x20,
     CHR 0xD0, CHR 0xBA, CHR 0x20, CHR 0x41, CHR 0x50, CHR 0x49, CHR 0x3A, CHR 0x20]"

text \<open>The literal of line 67, in UTF-8: \<^verbatim>\<open>Status otveta: \<close>
  (response status: ).\<close>

definition msg_status_is :: string where
  "msg_status_is =
    [CHR 0xD0, CHR 0xA1, CHR 0xD1, CHR 0x82, CHR 0xD0, CHR 0xB0, CHR 0xD1, CHR 0x82,
     CHR 0xD1, CHR 0x83, CHR 0xD1, CHR 0x81, CHR 0x20, CHR 0xD0, CHR 0xBE, CHR 0xD1,
     CHR 0x82, CHR 0xD0, CHR 0xB2, CHR 0xD0, CHR 0xB5, CHR 0xD1, CHR 0x82, CHR 0xD0,
     CHR 0xB0, CHR 0x3A, CHR 0x20]"

text \<open>The literal of lines 67-68, in UTF-8: \<^verbatim>\<open>. Polnyi tekst: \<close>
  (. full text: ).\<close>

definition msg_full_text :: string where
  "msg_full_text =
    [CHR 0x2E, CHR 0x20, CHR 0xD0, CHR 0x9F, CHR 0xD0, CHR 0xBE, CHR 0xD0, CHR 0xBB,
     CHR 0xD0, CHR 0xBD, CHR 0xD1, CHR 0x8B, CHR 0xD0, CHR 0xB9, CHR 0x20, CHR 0xD1,
     CHR 0x82, CHR 0xD0, CHR 0xB5, CHR 0xD0, CHR 0xBA, CHR 0xD1, CHR 0x81, CHR 0xD1,
     CHR 0x82, CHR 0x3A, CHR 0x20]"

text \<open>The literal of line 76, in UTF-8: \<^verbatim>\<open>Ne udalos rasparsit otvet: \<close>
  (could not parse the response: ).\<close>

definition msg_not_parsed :: string where
  "msg_not_parsed =
    [CHR 0xD0, CHR 0x9D, CHR 0xD0, CHR 0xB5, CHR 0x20, CHR 0xD1, CHR 0x83, CHR 0xD0,
     CHR 0xB4, CHR 0xD0, CHR 0xB0, CHR 0xD0, CHR 0xBB, CHR 0xD0, CHR 0xBE, CHR 0xD1,
     CHR 0x81, CHR 0xD1, CHR 0x8C, CHR 0x20, CHR 0xD1, CHR 0x80, CHR 0xD0, CHR 0xB0,
     CHR 0xD1, CHR 0x81, CHR 0xD0, CHR 0xBF, CHR 0xD0, CHR 0xB0, CHR 0xD1, CHR 0x80,
     CHR 0xD1, CHR 0x81, CHR 0xD0, CHR 0xB8, CHR 0xD1, CHR 0x82, CHR 0xD1, CHR 0x8C,
     CHR 0x20, CHR 0xD0, CHR 0xBE, CHR 0xD1, CHR 0x82, CHR 0xD0, CHR 0xB2, CHR 0xD0,
     CHR 0xB5, CHR 0xD1, CHR 0x82, CHR 0x3A, CHR 0x20]"

text \<open>The literal of line 86, in UTF-8: \<^verbatim>\<open>Tip dannykh otveta otlichaetsya ot dict\<close>
  (the type of the response is not dict).\<close>

definition msg_not_dict :: string where
  "msg_not_dict =
    [CHR 0xD0, CHR 0xA2, CHR 0xD0, CHR 0xB8, CHR 0xD0, CHR 0xBF, CHR 0x20, CHR 0xD0,
     CHR 0xB4, CHR 0xD0, CHR 0xB0, CHR 0xD0, CHR 0xBD, CHR 0xD0, CHR 0xBD, CHR 0xD1,
     CHR 0x8B, CHR 0xD1, CHR 0x85, CHR 0x20, CHR 0xD0, CHR 0xBE, CHR 0xD1, CHR 0x82,
     CHR 0xD0, CHR 0xB2, CHR 0xD0, CHR 0xB5, CHR 0xD1, CHR 0x82, CHR 0xD0, CHR 0xB0,
     CHR 0x20, CHR 0xD0, CHR 0xBE, CHR 0xD1, CHR 0x82, CHR 0xD0, CHR 0xBB, CHR 0xD0,
     CHR 0xB8, CHR 0xD1, CHR 0x87, CHR 0xD0, CHR 0xB0, CHR 0xD0, CHR 0xB5, CHR 0xD1,
     CHR 0x82, CHR 0xD1, CHR 0x81, CHR 0xD1, CHR 0x8F, CHR 0x20, CHR 0xD0, CHR 0xBE,
     CHR 0xD1, CHR 0x82, CHR 0x20, CHR 0x64, CHR 0x69, CHR 0x63, CHR 0x74]"

text \<open>The literal of line 90, in UTF-8: \<^verbatim>\<open>V otvete otsutstvuet klyuch so spiskom rabot\<close>
  (the response lacks the key of the list of works).\<close>

definition msg_no_homeworks :: string where
  "msg_no_homeworks =
    [CHR 0xD0, CHR 0x92, CHR 0x20, CHR 0xD0, CHR 0xBE, CHR 0xD1, CHR 0x82, CHR 0xD0,
     CHR 0xB2, CHR 0xD0, CHR 0xB5, CHR 0xD1, CHR 0x82, CHR 0xD0, CHR 0xB5, CHR 0x20,
     CHR 0xD0, CHR 0xBE, CHR 0xD1, CHR 0x82, CHR 0xD1, CHR 0x81, CHR 0xD1, CHR 0x83,
     CHR 0xD1, CHR 0x82, CHR 0xD1, CHR 0x81, CHR 0xD1, CHR 0x82, CHR 0xD0, CHR 0xB2,
     CHR 0xD1, CHR 0x83, CHR 0xD0, CHR 0xB5, CHR 0xD1, CHR 0x82, CHR 0x20, CHR 0xD0,
     CHR 0xBA, CHR 0xD0, CHR 0xBB, CHR 0xD1, CHR 0x8E, CHR 0xD1, CHR 0x87, CHR 0x20,
     CHR 0xD1, CHR 0x81, CHR 0xD0, CHR 0xBE, CHR 0x20, CHR 0xD1, CHR 0x81, CHR 0xD0,
     CHR 0xBF, CHR 0xD0, CHR 0xB8, CHR 0xD1, CHR 0x81, CHR 0xD0, CHR 0xBA, CHR 0xD0,
     CHR 0xBE, CHR 0xD0, CHR 0xBC, CHR 0x20, CHR 0xD1, CHR 0x80, CHR 0xD0, CHR 0xB0,
     CHR 0xD0, CHR 0xB1, CHR 0xD0, CHR 0xBE, CHR 0xD1, CHR 0x82]"

text \<open>The literal of line 94, in UTF-8: \<^verbatim>\<open>Tip dannykh spiska rabot otlichaetsya ot list\<close>
  (the type of the list of works is not list).\<close>

definition msg_not_list :: string where
  "msg_not_list =
    [CHR 0xD0, CHR 0xA2, CHR 0xD0, CHR 0xB8, CHR 0xD0, CHR 0xBF, CHR 0x20, CHR 0xD0,
     CHR 0xB4, CHR 0xD0, CHR 0xB0, CHR 0xD0, CHR 0xBD, CHR 0xD0, CHR 0xBD, CHR 0xD1,
     CHR 0x8B, CHR 0xD1, CHR 0x85, CHR 0x20, CHR 0xD1, CHR 0x81, CHR 0xD0, CHR 0xBF,
     CHR 0xD0, CHR 0xB8, CHR 0xD1, CHR 0x81, CHR 0xD0, CHR 0xBA, CHR 0xD0, CHR 0xB0,
     CHR 0x20, CHR 0xD1, CHR 0x80, CHR 0xD0, CHR 0xB0, CHR 0xD0, CHR 0xB1, CHR 0xD0,
     CHR 0xBE, CHR 0xD1, CHR 0x82, CHR 0x20, CHR 0xD0, CHR 0xBE, CHR 0xD1, CHR 0x82,
     CHR 0xD0, CHR 0xBB, CHR 0xD0, CHR 0xB8, CHR 0xD1, CHR 0x87, CHR 0xD0, CHR 0xB0,
     CHR 0xD0, CHR 0xB5, CHR 0xD1, CHR 0x82, CHR 0xD1, CHR 0x81, CHR 0xD1, CHR 0x8F,
     CHR 0x20, CHR 0xD0, CHR 0xBE, CHR 0xD1, CHR 0x82, CHR 0x20, CHR 0x6C, CHR 0x69,
     CHR 0x73, CHR 0x74]"

text \<open>The literal of lines 98-99, in UTF-8: \<^verbatim>\<open>API vernula pustoi spisok domashnikh rabot: ni odna rabota poka ne vzyata na proverku\<close>
  (the API returned an empty list of homeworks: no work is under review yet).\<close>

definition msg_empty_list :: string where
  "msg_empty_list =
    [CHR 0x41, CHR 0x50, CHR 0x49, CHR 0x20, CHR 0xD0, CHR 0xB2, CHR 0xD0, CHR 0xB5,
     CHR 0xD1, CHR 0x80, CHR 0xD0, CHR 0xBD, CHR 0xD1, CHR 0x83, CHR 0xD0, CHR 0xBB,
     CHR 0xD0, CHR 0xB0, CHR 0x20, CHR 0xD0, CHR 0xBF, CHR 0xD1, CHR 0x83, CHR 0xD1,
     CHR 0x81, CHR 0xD1, CHR 0x82, CHR 0xD0, CHR 0xBE, CHR 0xD0, CHR 0xB9, CHR 0x20,
     CHR 0xD1, CHR 0x81, CHR 0xD0, CHR 0xBF, CHR 0xD0, CHR 0xB8, CHR 0xD1, CHR 0x81,
     CHR 0xD0, CHR 0xBE, CHR 0xD0, CHR 0xBA, CHR 0x20, CHR 0xD0, CHR 0xB4, CHR 0xD0,
     CHR 0xBE, CHR 0xD0, CHR 0xBC, CHR 0xD0, CHR 0xB0, CHR 0xD1, CHR 0x88, CHR 0xD0,
     CHR 0xBD, CHR 0xD0, CHR 0xB8, CHR 0xD1, CHR 0x85, CHR 0x20, CHR 0xD1, CHR 0x80,
     CHR 0xD0, CHR 0xB0, CHR 0xD0, CHR 0xB1, CHR 0xD0, CHR 0xBE, CHR 0xD1, CHR 0x82,
     CHR 0x3A, CHR 0x20, CHR 0xD0, CHR 0xBD, CHR 0xD0, CHR 0xB8, CHR 0x20, CHR 0xD0,
     CHR 0xBE, CHR 0xD0, CHR 0xB4, CHR 0xD0, CHR 0xBD, CHR 0xD0, CHR 0xB0, CHR 0x20,
     CHR 0xD1, CHR 0x80, CHR 0xD0, CHR 0xB0, CHR 0xD0, CHR 0xB1, CHR 0xD0, CHR 0xBE,
     CHR 0xD1, CHR 0x82, CHR 0xD0, CHR 0xB0, CHR 0x20, CHR 0xD0, CHR 0xBF, CHR 0xD0,
     CHR 0xBE, CHR 0xD0, CHR 0xBA, CHR 0xD0, CHR 0xB0, CHR 0x20, CHR 0xD0, CHR 0xBD,
     CHR 0xD0, CHR 0xB5, CHR 0x20, CHR 0xD0, CHR 0xB2, CHR 0xD0, CHR 0xB7, CHR 0xD1,
     CHR 0x8F, CHR 0xD1, CHR 0x82, CHR 0xD0, CHR 0xB0, CHR 0x20, CHR 0xD0, CHR 0xBD,
     CHR 0xD0, CHR 0xB0, CHR 0x20, CHR 0xD0, CHR 0xBF, CHR 0xD1, CHR 0x80, CHR 0xD0,
     CHR 0xBE, CHR 0xD0, CHR 0xB2, CHR 0xD0, CHR 0xB5, CHR 0xD1, CHR 0x80, CHR 0xD0,
     CHR 0xBA, CHR 0xD1, CHR 0x83]"

text \<open>The literal of line 112, in UTF-8: \<^verbatim>\<open>Ne u vsekh rabot ukazana data obnovleniya\<close>
  (not every work has an update date).\<close>

definition msg_no_date :: string where
  "msg_no_date =
    [CHR 0xD0, CHR 0x9D, CHR 0xD0, CHR 0xB5, CHR 0x20, CHR 0xD1, CHR 0x83, CHR 0x20,
     CHR 0xD0, CHR 0xB2, CHR 0xD1, CHR 0x81, CHR 0xD0, CHR 0xB5, CHR 0xD1, CHR 0x85,
     CHR 0x20, CHR 0xD1, CHR 0x80, CHR 0xD0, CHR 0xB0, CHR 0xD0, CHR 0xB1, CHR 0xD0,
     CHR 0xBE, CHR 0xD1, CHR 0x82, CHR 0x20, CHR 0xD1, CHR 0x83, CHR 0xD0, CHR 0xBA,
     CHR 0xD0, CHR 0xB0, CHR 0xD0, CHR 0xB7, CHR 0xD0, CHR 0xB0, CHR 0xD0, CHR 0xBD,
     CHR 0xD0, CHR 0xB0, CHR 0x20, CHR 0xD0, CHR 0xB4, CHR 0xD0, CHR 0xB0, CHR 0xD1,
     CHR 0x82, CHR 0xD0, CHR 0xB0, CHR 0x20, CHR 0xD0, CHR 0xBE, CHR 0xD0, CHR 0xB1,
     CHR 0xD0, CHR 0xBD, CHR 0xD0, CHR 0xBE, CHR 0xD0, CHR 0xB2, CHR 0xD0, CHR 0xBB,
     CHR 0xD0, CHR 0xB5, CHR 0xD0, CHR 0xBD, CHR 0xD0, CHR 0xB8, CHR 0xD1, CHR 0x8F]"

text \<open>The literal of line 126, in UTF-8: \<^verbatim>\<open>U domashnei raboty otsutstvet nazvanie\<close>
  (the homework has no name).\<close>

definition msg_no_name :: string where
  "msg_no_name =
    [CHR 0xD0, CHR 0xA3, CHR 0x20, CHR 0xD0, CHR 0xB4, CHR 0xD0, CHR 0xBE, CHR 0xD0,
     CHR 0xBC, CHR 0xD0, CHR 0xB0, CHR 0xD1, CHR 0x88, CHR 0xD0, CHR 0xBD, CHR 0xD0,
     CHR 0xB5, CHR 0xD0, CHR 0xB9, CHR 0x20, CHR 0xD1, CHR 0x80, CHR 0xD0, CHR 0xB0,
     CHR 0xD0, CHR 0xB1, CHR 0xD0, CHR 0xBE, CHR 0xD1, CHR 0x82, CHR 0xD1, CHR 0x8B,
     CHR 0x20, CHR 0xD0, CHR 0xBE, CHR 0xD1, CHR 0x82, CHR 0xD1, CHR 0x81, CHR 0xD1,
     CHR 0x83, CHR 0xD1, CHR 0x82, CHR 0xD1, CHR 0x81, CHR 0xD1, CHR 0x82, CHR 0xD0,
     CHR 0xB2, CHR 0xD0, CHR 0xB5, CHR 0xD1, CHR 0x82, CHR 0x20, CHR 0xD0, CHR 0xBD,
     CHR 0xD0, CHR 0xB0, CHR 0xD0, CHR 0xB7, CHR 0xD0, CHR 0xB2, CHR 0xD0, CHR 0xB0,
     CHR 0xD0, CHR 0xBD, CHR 0xD0, CHR 0xB8, CHR 0xD0, CHR 0xB5]"

text \<open>The literal of line 130, in UTF-8: \<^verbatim>\<open>U domashnei raboty otsutstvet status\<close>
  (the homework has no status).\<close>

definition msg_no_status :: string where
  "msg_no_status =
    [CHR 0xD0, CHR 0xA3, CHR 0x20, CHR 0xD0, CHR 0xB4, CHR 0xD0, CHR 0xBE, CHR 0xD0,
     CHR 0xBC, CHR 0xD0, CHR 0xB0, CHR 0xD1, CHR 0x88, CHR 0xD0, CHR 0xBD, CHR 0xD0,
     CHR 0xB5, CHR 0xD0, CHR 0xB9, CHR 0x20, CHR 0xD1, CHR 0x80, CHR 0xD0, CHR 0xB0,
     CHR 0xD0, CHR 0xB1, CHR 0xD0, CHR 0xBE, CHR 0xD1, CHR 0x82, CHR 0xD1, CHR 0x8B,
     CHR 0x20, CHR 0xD0, CHR 0xBE, CHR 0xD1, CHR 0x82, CHR 0xD1, CHR 0x81, CHR 0xD1,
     CHR 0x83, CHR 0xD1, CHR 0x82, CHR 0xD1, CHR 0x81, CHR 0xD1, CHR 0x82, CHR 0xD0,
     CHR 0xB2, CHR 0xD0, CHR 0xB5, CHR 0xD1, CHR 0x82, CHR 0x20, CHR 0xD1, CHR 0x81,
     CHR 0xD1, CHR 0x82, CHR 0xD0, CHR 0xB0, CHR 0xD1, CHR 0x82, CHR 0xD1, CHR 0x83,
     CHR 0xD1, CHR 0x81]"

text \<open>The literal of line 134, in UTF-8: \<^verbatim>\<open>Domashnyaya rabota soderzhit neizvestnyi status\<close>
  (the homework has an unknown status).\<close>

definition msg_unknown_status :: string where
  "msg_unknown_status =
    [CHR 0xD0, CHR 0x94, CHR 0xD0, CHR 0xBE, CHR 0xD0, CHR 0xBC, CHR 0xD0, CHR 0xB0,
     CHR 0xD1, CHR 0x88, CHR 0xD0, CHR 0xBD, CHR 0xD1, CHR 0x8F, CHR 0xD1, CHR 0x8F,
     CHR 0x20, CHR 0xD1, CHR 0x80, CHR 0xD0, CHR 0xB0, CHR 0xD0, CHR 0xB1, CHR 0xD0,
     CHR 0xBE, CHR 0xD1, CHR 0x82, CHR 0xD0, CHR 0xB0, CHR 0x20, CHR 0xD1, CHR 0x81,
     CHR 0xD0, CHR 0xBE, CHR 0xD0, CHR 0xB4, CHR 0xD0, CHR 0xB5, CHR 0xD1, CHR 0x80,
     CHR 0xD0, CHR 0xB6, CHR 0xD0, CHR 0xB8, CHR 0xD1, CHR 0x82, CHR 0x20, CHR 0xD0,
     CHR 0xBD, CHR 0xD0, CHR 0xB5, CHR 0xD0, CHR 0xB8, CHR 0xD0, CHR 0xB7, CHR 0xD0,
     CHR 0xB2, CHR 0xD0, CHR 0xB5, CHR 0xD1, CHR 0x81, CHR 0xD1, CHR 0x82, CHR 0xD0,
     CHR 0xBD, CHR 0xD1, CHR 0x8B, CHR 0xD0, CHR 0xB9, CHR 0x20, CHR 0xD1, CHR 0x81,
     CHR 0xD1, CHR 0x82, CHR 0xD0, CHR 0xB0, CHR 0xD1, CHR 0x82, CHR 0xD1, CHR 0x83,
     CHR 0xD1, CHR 0x81]"

text \<open>The literal of line 26, in UTF-8: \<^verbatim>\<open>Rabota vzyata na proverku revyuerom.\<close>
  (the work was taken for review by the reviewer.).\<close>

definition verdict_reviewing :: string where
  "verdict_reviewing =
    [CHR 0xD0, CHR 0xA0, CHR 0xD0, CHR 0xB0, CHR 0xD0, CHR 0xB1, CHR 0xD0, CHR 0xBE,
     CHR 0xD1, CHR 0x82, CHR 0xD0, CHR 0xB0, CHR 0x20, CHR 0xD0, CHR 0xB2, CHR 0xD0,
     CHR 0xB7, CHR 0xD1, CHR 0x8F, CHR 0xD1, CHR 0x82, CHR 0xD0, CHR 0xB0, CHR 0x20,
     CHR 0xD0, CHR 0xBD, CHR 0xD0, CHR 0xB0, CHR 0x20, CHR 0xD0, CHR 0xBF, CHR 0xD1,
     CHR 0x80, CHR 0xD0, CHR 0xBE, CHR 0xD0, CHR 0xB2, CHR 0xD0, CHR 0xB5, CHR 0xD1,
     CHR 0x80, CHR 0xD0, CHR 0xBA, CHR 0xD1, CHR 0x83, CHR 0x20, CHR 0xD1, CHR 0x80,
     CHR 0xD0, CHR 0xB5, CHR 0xD0, CHR 0xB2, CHR 0xD1, CHR 0x8C, CHR 0xD1, CHR 0x8E,
     CHR 0xD0, CHR 0xB5, CHR 0xD1, CHR 0x80, CHR 0xD0, CHR 0xBE, CHR 0xD0, CHR 0xBC,
     CHR 0x2E]"

text \<open>The literal of line 27, in UTF-8: \<^verbatim>\<open>Rabota proverena: u revyuera est zamechaniya.\<close>
  (the work is reviewed: the reviewer has remarks.).\<close>

definition verdict_rejected :: string where
  "verdict_rejected =
    [CHR 0xD0, CHR 0xA0, CHR 0xD0, CHR 0xB0, CHR 0xD0, CHR 0xB1, CHR 0xD0, CHR 0xBE,
     CHR 0xD1, CHR 0x82, CHR 0xD0, CHR 0xB0, CHR 0x20, CHR 0xD0, CHR 0xBF, CHR 0xD1,
     CHR 0x80, CHR 0xD0, CHR 0xBE, CHR 0xD0, CHR 0xB2, CHR 0xD0, CHR 0xB5, CHR 0xD1,
     CHR 0x80, CHR 0xD0, CHR 0xB5, CHR 0xD0, CHR 0xBD, CHR 0xD0, CHR 0xB0, CHR 0x3A,
     CHR 0x20, CHR 0xD1, CHR 0x83, CHR 0x20, CHR 0xD1, CHR 0x80, CHR 0xD0, CHR 0xB5,
     CHR 0xD0, CHR 0xB2, CHR 0xD1, CHR 0x8C, CHR 0xD1, CHR 0x8E, CHR 0xD0, CHR 0xB5,
     CHR 0xD1, CHR 0x80, CHR 0xD0, CHR 0xB0, CHR 0x20, CHR 0xD0, CHR 0xB5, CHR 0xD1,
     CHR 0x81, CHR 0xD1, CHR 0x82, CHR 0xD1, CHR 0x8C, CHR 0x20, CHR 0xD0, CHR 0xB7,
     CHR 0xD0, CHR 0xB0, CHR 0xD0, CHR 0xBC, CHR 0xD0, CHR 0xB5, CHR 0xD1, CHR 0x87,
     CHR 0xD0, CHR 0xB0, CHR 0xD0, CHR 0xBD, CHR 0xD0, CHR 0xB8, CHR 0xD1, CHR 0x8F,
     CHR 0x2E]"

text \<open>The literal of line 28, in UTF-8: \<^verbatim>\<open>Rabota proverena: revyueru vsyo ponravilos. Ura!\<close>
  (the work is reviewed: the reviewer liked everything. Hooray!).\<close>

definition verdict_approved :: string where
  "verdict_approved =
    [CHR 0xD0, CHR 0xA0, CHR 0xD0, CHR 0xB0, CHR 0xD0, CHR 0xB1, CHR 0xD0, CHR 0xBE,
     CHR 0xD1, CHR 0x82, CHR 0xD0, CHR 0xB0, CHR 0x20, CHR 0xD0, CHR 0xBF, CHR 0xD1,
     CHR 0x80, CHR 0xD0, CHR 0xBE, CHR 0xD0, CHR 0xB2, CHR 0xD0, CHR 0xB5, CHR 0xD1,
     CHR 0x80, CHR 0xD0, CHR 0xB5, CHR 0xD0, CHR 0xBD, CHR 0xD0, CHR 0xB0, CHR 0x3A,
     CHR 0x20, CHR 0xD1, CHR 0x80, CHR 0xD0, CHR 0xB5, CHR 0xD0, CHR 0xB2, CHR 0xD1,
     CHR 0x8C, CHR 0xD1, CHR 0x8E, CHR 0xD0, CHR 0xB5, CHR 0xD1, CHR 0x80, CHR 0xD1,
     CHR 0x83, CHR 0x20, CHR 0xD0, CHR 0xB2, CHR 0xD1, CHR 0x81, CHR 0xD1, CHR 0x91,
     CHR 0x20, CHR 0xD0, CHR 0xBF, CHR 0xD0, CHR 0xBE, CHR 0xD0, CHR 0xBD, CHR 0xD1,
     CHR 0x80, CHR 0xD0, CHR 0xB0, CHR 0xD0, CHR 0xB2, CHR 0xD0, CHR 0xB8, CHR 0xD0,
     CHR 0xBB, CHR 0xD0, CHR 0xBE, CHR 0xD1, CHR 0x81, CHR 0xD1, CHR 0x8C, CHR 0x2E,
     CHR 0x20, CHR 0xD0, CHR 0xA3, CHR 0xD1, CHR 0x80, CHR 0xD0, CHR 0xB0, CHR 0x21]"

text \<open>The literal of line 139, up to and with the opening quotation mark, in UTF-8: \<^verbatim>\<open>Izmenilsya status proverki raboty\<close>
  (the review status of the work changed, then a quotation mark).\<close>

definition msg_status_changed :: string where
  "msg_status_changed =
    [CHR 0xD0, CHR 0x98, CHR 0xD0, CHR 0xB7, CHR 0xD0, CHR 0xBC, CHR 0xD0, CHR 0xB5,
     CHR 0xD0, CHR 0xBD, CHR 0xD0, CHR 0xB8, CHR 0xD0, CHR 0xBB, CHR 0xD1, CHR 0x81,
     CHR 0xD1, CHR 0x8F, CHR 0x20, CHR 0xD1, CHR 0x81, CHR 0xD1, CHR 0x82, CHR 0xD0,
     CHR 0xB0, CHR 0xD1, CHR 0x82, CHR 0xD1, CHR 0x83, CHR 0xD1, CHR 0x81, CHR 0x20,
     CHR 0xD0, CHR 0xBF, CHR 0xD1, CHR 0x80, CHR 0xD0, CHR 0xBE, CHR 0xD0, CHR 0xB2,
     CHR 0xD0, CHR 0xB5, CHR 0xD1, CHR 0x80, CHR 0xD0, CHR 0xBA, CHR 0xD0, CHR 0xB8,
     CHR 0x20, CHR 0xD1, CHR 0x80, CHR 0xD0, CHR 0xB0, CHR 0xD0, CHR 0xB1, CHR 0xD0,
     CHR 0xBE, CHR 0xD1, CHR 0x82, CHR 0xD1, CHR 0x8B, CHR 0x20, CHR 0x22]"

text \<open>The literal of line 139, between the name and the verdict: a quotation mark, a full stop and a space.\<close>

definition msg_status_sep :: string where
  "msg_status_sep =
    [CHR 0x22, CHR 0x2E, CHR 0x20]"

text \<open>The literal of line 163, in UTF-8: \<^verbatim>\<open>Tekhnicheskie nepoladki: \<close>
  (technical problems: ).\<close>

definition msg_technical :: string where
  "msg_technical =
    [CHR 0xD0, CHR 0xA2, CHR 0xD0, CHR 0xB5, CHR 0xD1, CHR 0x85, CHR 0xD0, CHR 0xBD,
     CHR 0xD0, CHR 0xB8, CHR 0xD1, CHR 0x87, CHR 0xD0, CHR 0xB5, CHR 0xD1, CHR 0x81,
     CHR 0xD0, CHR 0xBA, CHR 0xD0, CHR 0xB8, CHR 0xD0, CHR 0xB5, CHR 0x20, CHR 0xD0,
     CHR 0xBD, CHR 0xD0, CHR 0xB5, CHR 0xD0, CHR 0xBF, CHR 0xD0, CHR 0xBE, CHR 0xD0,
     CHR 0xBB, CHR 0xD0, CHR 0xB0, CHR 0xD0, CHR 0xB4, CHR 0xD0, CHR 0xBA, CHR 0xD0,
     CHR 0xB8, CHR 0x3A, CHR 0x20]"

text \<open>The literal of lines 166 and 178, in UTF-8: \<^verbatim>\<open>Neizvestnyi sboi v rabote: \<close>
  (unknown failure at work: ).\<close>

definition msg_unknown_failure :: string where
  "msg_unknown_failure =
    [CHR 0xD0, CHR 0x9D, CHR 0xD0, CHR 0xB5, CHR 0xD0, CHR 0xB8, CHR 0xD0, CHR 0xB7,
     CHR 0xD0, CHR 0xB2, CHR 0xD0, CHR 0xB5, CHR 0xD1, CHR 0x81, CHR 0xD1, CHR 0x82,
     CHR 0xD0, CHR 0xBD, CHR 0xD1, CHR 0x8B, CHR 0xD0, CHR 0xB9, CHR 0x20, CHR 0xD1,
     CHR 0x81, CHR 0xD0, CHR 0xB1, CHR 0xD0, CHR 0xBE, CHR 0xD0, CHR 0xB9, CHR 0x20,
     CHR 0xD0, CHR 0xB2, CHR 0x20, CHR 0xD1, CHR 0x80, CHR 0xD0, CHR 0xB0, CHR 0xD0,
     CHR 0xB1, CHR 0xD0, CHR 0xBE, CHR 0xD1, CHR 0x82, CHR 0xD0, CHR 0xB5, CHR 0x3A,
     CHR 0x20]"

text \<open>The literal of line 175, in UTF-8: \<^verbatim>\<open>Ne udalos otpravit soobshchenie: \<close>
  (could not send the message: ).\<close>

definition msg_not_sent :: string where
  "msg_not_sent =
    [CHR 0xD0, CHR 0x9D, CHR 0xD0, CHR 0xB5, CHR 0x20, CHR 0xD1, CHR 0x83, CHR 0xD0,
     CHR 0xB4, CHR 0xD0, CHR 0xB0, CHR 0xD0, CHR 0xBB, CHR 0xD0, CHR 0xBE, CHR 0xD1,
     CHR 0x81, CHR 0xD1, CHR 0x8C, CHR 0x20, CHR 0xD0, CHR 0xBE, CHR 0xD1, CHR 0x82,
     CHR 0xD0, CHR 0xBF, CHR 0xD1, CHR 0x80, CHR 0xD0, CHR 0xB0, CHR 0xD0, CHR 0xB2,
     CHR 0xD0, CHR 0xB8, CHR 0xD1, CHR 0x82, CHR 0xD1, CHR 0x8C, CHR 0x20, CHR 0xD1,
     CHR 0x81, CHR 0xD0, CHR 0xBE, CHR 0xD0, CHR 0xBE, CHR 0xD0, CHR 0xB1, CHR 0xD1,
     CHR 0x89, CHR 0xD0, CHR 0xB5, CHR 0xD0, CHR 0xBD, CHR 0xD0, CHR 0xB8, CHR 0xD0,
     CHR 0xB5, CHR 0x3A, CHR 0x20]"
subsection \<open>Built-in operations on decoded values\<close>

text \<open>
  Two operations of the interpreter are parameters of the model: \<open>str_of\<close>, the text
  of \<^verbatim>\<open>str(v)\<close> for a value that is not a string, and \<open>sort_mixed\<close>, what \<^verbatim>\<open>sorted\<close> with
  \<^verbatim>\<open>reverse=True\<close> does with two or more items whose keys are neither all strings nor all
  integers (it returns the items in some order, or raises when it compares two keys that
  have no order).
  Nothing is assumed about either.
\<close>

record interp =
  str_of :: "pyval \<Rightarrow> string"
  sort_mixed :: "(pyval \<times> pyval) list \<Rightarrow> exn + pyval list"

fun type_name :: "pyval \<Rightarrow> string" where
  "type_name PNone = ''NoneType''"
| "type_name (PBool _) = ''bool''"
| "type_name (PInt _) = ''int''"
| "type_name (PFloat _) = ''float''"
| "type_name (PStr _) = ''str''"
| "type_name (PList _) = ''list''"
| "type_name (PDict _) = ''dict''"

text \<open>\<^verbatim>\<open>key in s\<close> for two strings: \<open>key\<close> occurs in \<open>s\<close> as a substring.\<close>

fun str_contains :: "string \<Rightarrow> string \<Rightarrow> bool" where
  "str_contains key [] = (key = [])"
| "str_contains key (c # cs) = (prefix key (c # cs) \<or> str_contains key cs)"

text \<open>
  \<^verbatim>\<open>key in v\<close> for a string \<open>key\<close>: a key of a dict, an element of a list, a substring
  of a string; the other values are no containers. The messages of the exceptions that the
  interpreter raises are those of CPython 3.11 and 3.12.
\<close>

fun py_contains :: "string \<Rightarrow> pyval \<Rightarrow> exn + bool" where
  "py_contains key (PDict d) = Inr (key \<in> set (map fst d))"
| "py_contains key (PList xs) = Inr (PStr key \<in> set xs)"
| "py_contains key (PStr s) = Inr (str_contains key s)"
| "py_contains key v =
     Inl (TypeError (''argument of type '' @ [CHR 0x27] @ type_name v @ [CHR 0x27] @ '' is not iterable''))"

text \<open>\<^verbatim>\<open>v[key]\<close> for a string \<open>key\<close>.\<close>

fun py_getitem :: "pyval \<Rightarrow> string \<Rightarrow> exn + pyval" where
  "py_getitem (PDict d) key =
     (case map_of d key of None \<Rightarrow> Inl (KeyError key) | Some x \<Rightarrow> Inr x)"
| "py_getitem (PList xs) key =
     Inl (TypeError ''list indices must be integers or slices, not str'')"
| "py_getitem (PStr s) key =
     Inl (TypeError (''string indices must be integers, not '' @ [CHR 0x27] @ ''str'' @ [CHR 0x27]))"
| "py_getitem v key =
     Inl (TypeError ([CHR 0x27] @ type_name v @ [CHR 0x27] @ '' object is not subscriptable''))"

text \<open>
  The items that \<^verbatim>\<open>for x in v\<close> and \<^verbatim>\<open>sorted(v)\<close> run through: the elements of a list, the
  keys of a dict, the characters of a string (each a lead byte with its continuation bytes).
\<close>

definition utf8_continuation :: "char \<Rightarrow> bool" where
  "utf8_continuation c = (CHR 0x80 \<le> c \<and> c < CHR 0xC0)"

function utf8_chars :: "string \<Rightarrow> string list" where
  "utf8_chars [] = []"
| "utf8_chars (c # cs) =
     (c # takeWhile utf8_continuation cs) # utf8_chars (dropWhile utf8_continuation cs)"
  by pat_completeness auto
termination
  by (relation "measure length") (auto simp: length_dropWhile_le le_imp_less_Suc)

fun py_iter :: "pyval \<Rightarrow> exn + pyval list" where
  "py_iter (PList xs) = Inr xs"
| "py_iter (PDict d) = Inr (map (PStr \<circ> fst) d)"
| "py_iter (PStr s) = Inr (map PStr (utf8_chars s))"
| "py_iter v =
     Inl (TypeError ([CHR 0x27] @ type_name v @ [CHR 0x27] @ '' object is not iterable''))"

text \<open>
  A replacement field of an f-string, \<^verbatim>\<open>{v}\<close>: a string stands for itself, any other
  value for its \<^verbatim>\<open>str\<close>.
\<close>

definition py_format :: "interp \<Rightarrow> pyval \<Rightarrow> string" where
  "py_format rt v = (case v of PStr s \<Rightarrow> s | _ \<Rightarrow> str_of rt v)"

text \<open>Decimal digits of an integer, as \<^verbatim>\<open>str\<close> and \<^verbatim>\<open>repr\<close> print it.\<close>

function str_nat :: "nat \<Rightarrow> string" where
  "str_nat n =
     (if n < 10 then [''0123456789'' ! n]
      else str_nat (n div 10) @ [''0123456789'' ! (n mod 10)])"
  by pat_completeness auto
termination
  by (relation "measure id") auto

declare str_nat.simps [simp del]

definition str_int :: "int \<Rightarrow> string" where
  "str_int i = (if i < 0 then CHR ''-'' # str_nat (nat (- i)) else str_nat (nat i))"

text \<open>
  \<^verbatim>\<open>sorted(items, key=..., reverse=True)\<close> on items paired with their keys. A list of fewer
  than two items is returned as it is, without any comparison. On keys that are all strings,
  or all integers, the result is the stable descending sort, which the interpreter computes
  as written here: reverse the list, sort it ascending and stably, reverse the result.
  Strings are compared lexicographically, integers by value.
\<close>

definition py_sorted_reverse :: "interp \<Rightarrow> (pyval \<times> pyval) list \<Rightarrow> exn + pyval list" where
  "py_sorted_reverse rt keyed =
     (if length keyed < 2 then Inr (map snd keyed)
      else if list_all (\<lambda>(k, x). is_PStr k) keyed
        then Inr (map snd (rev (sort_key (\<lambda>(k, x). str_val k) (rev keyed))))
      else if list_all (\<lambda>(k, x). is_PInt k) keyed
        then Inr (map snd (rev (sort_key (\<lambda>(k, x). int_val k) (rev keyed))))
      else sort_mixed rt keyed)"

subsection \<open>Configuration and the outside world\<close>

text \<open>
  The three values read from the environment when the module is loaded:
  \<^verbatim>\<open>os.getenv\<close> gives \<^verbatim>\<open>None\<close> for a variable that is not set.
\<close>

record config =
  TELEGRAM_TOKEN :: "string option"
  PRACTICUM_TOKEN :: "string option"
  TELEGRAM_CHAT_ID :: "string option"

definition RETRY_PERIOD :: nat where
  "RETRY_PERIOD = 600"

text \<open>The verdict vocabulary, in the order of the source.\<close>

definition HOMEWORK_VERDICTS :: "(string \<times> string) list" where
  "HOMEWORK_VERDICTS =
     [(''reviewing'', verdict_reviewing),
      (''rejected'', verdict_rejected),
      (''approved'', verdict_approved)]"

text \<open>
  An HTTP response as the code reads it: \<^verbatim>\<open>status_code\<close>, \<^verbatim>\<open>text\<close>, and what \<^verbatim>\<open>json()\<close>
  does: it returns the decoded body, raises a \<^verbatim>\<open>ValueError\<close> for a body that is not JSON,
  or raises an exception of another class (a \<^verbatim>\<open>RecursionError\<close> for a body nested too
  deeply); the strings are the \<^verbatim>\<open>str\<close> of the exception.
\<close>

datatype decoding =
    Decoded pyval
  | Undecodable string
  | Decoder_raises string

record response =
  status_code :: int
  resp_text :: string
  resp_json :: decoding

text \<open>
  What one call of \<^verbatim>\<open>requests.get\<close> does: it returns a response, raises a
  \<^verbatim>\<open>requests.RequestException\<close> (a connection error, a timeout, ...), or raises an exception
  of another class; the strings are the \<^verbatim>\<open>str\<close> of the exception. What one call of
  \<^verbatim>\<open>bot.send_message\<close> does: it returns, or raises an exception.
\<close>

datatype transport =
    Responds response
  | Raises_RequestException string
  | Raises_other string

datatype delivery = Delivered | Refused string

text \<open>
  The world: the outcomes of the calls to come, one per call, and what the program has
  done so far: the \<^verbatim>\<open>from_date\<close> of every request, the chat and text of every call of
  \<^verbatim>\<open>bot.send_message\<close>, and the seconds slept.
\<close>

record world =
  net :: "transport stream"
  telegram :: "delivery stream"
  requested :: "int list"
  posted :: "(string option \<times> string) list"
  slept :: nat

datatype TeleBot = TeleBot "string option"

text \<open>
  The members of \<^verbatim>\<open>http.HTTPStatus\<close> with their phrases (Python 3.9 to 3.12), and the
  call of the enumeration on a value: the member of that value, or a \<^verbatim>\<open>ValueError\<close>.
\<close>

definition HTTPStatus_members :: "(int \<times> string) list" where
  "HTTPStatus_members =
     [(100, ''Continue''), (101, ''Switching Protocols''), (102, ''Processing''),
      (103, ''Early Hints''),
      (200, ''OK''), (201, ''Created''), (202, ''Accepted''),
      (203, ''Non-Authoritative Information''), (204, ''No Content''),
      (205, ''Reset Content''), (206, ''Partial Content''), (207, ''Multi-Status''),
      (208, ''Already Reported''), (226, ''IM Used''),
      (300, ''Multiple Choices''), (301, ''Moved Permanently''), (302, ''Found''),
      (303, ''See Other''), (304, ''Not Modified''), (305, ''Use Proxy''),
      (307, ''Temporary Redirect''), (308, ''Permanent Redirect''),
      (400, ''Bad Request''), (401, ''Unauthorized''), (402, ''Payment Required''),
      (403, ''Forbidden''), (404, ''Not Found''), (405, ''Method Not Allowed''),
      (406, ''Not Acceptable''), (407, ''Proxy Authentication Required''),
      (408, ''Request Timeout''), (409, ''Conflict''), (410, ''Gone''),
      (411, ''Length Required''), (412, ''Precondition Failed''),
      (413, ''Request Entity Too Large''), (414, ''Request-URI Too Long''),
      (415, ''Unsupported Media Type''), (416, ''Requested Range Not Satisfiable''),
      (417, ''Expectation Failed''), (418, ''I'' @ [CHR 0x27] @ ''m a Teapot''),
      (421, ''Misdirected Request''), (422, ''Unprocessable Entity''), (423, ''Locked''),
      (424, ''Failed Dependency''), (425, ''Too Early''), (426, ''Upgrade Required''),
      (428, ''Precondition Required''), (429, ''Too Many Requests''),
      (431, ''Request Header Fields Too Large''), (451, ''Unavailable For Legal Reasons''),
      (500, ''Internal Server Error''), (501, ''Not Implemented''), (502, ''Bad Gateway''),
      (503, ''Service Unavailable''), (504, ''Gateway Timeout''),
      (505, ''HTTP Version Not Supported''), (506, ''Variant Also Negotiates''),
      (507, ''Insufficient Storage''), (508, ''Loop Detected''), (510, ''Not Extended''),
      (511, ''Network Authentication Required'')]"

record http_status =
  status_value :: int
  phrase :: string

definition HTTPStatus :: "int \<Rightarrow> exn + http_status" where
  "HTTPStatus v =
     (case map_of HTTPStatus_members v of
        None \<Rightarrow> Inl (ValueError (str_int v @ '' is not a valid HTTPStatus''))
      | Some p \<Rightarrow> Inr \<lparr>status_value = v, phrase = p\<rparr>)"

definition HTTPStatus_OK :: http_status where
  "HTTPStatus_OK = \<lparr>status_value = 200, phrase = ''OK''\<rparr>"

subsection \<open>The functions of the program\<close>

text \<open>
  \<^verbatim>\<open>check_tokens\<close>: \<^verbatim>\<open>all([...])\<close> of the three values; \<^verbatim>\<open>None\<close> and the empty string are
  false, every other string is true.
\<close>

fun py_bool :: "string option \<Rightarrow> bool" where
  "py_bool None = False"
| "py_bool (Some s) = (s \<noteq> [])"

definition check_tokens :: "config \<Rightarrow> bool" where
  "check_tokens cfg =
     list_all py_bool [TELEGRAM_TOKEN cfg, PRACTICUM_TOKEN cfg, TELEGRAM_CHAT_ID cfg]"

text \<open>
  \<^verbatim>\<open>send_message\<close>: one call of \<^verbatim>\<open>bot.send_message\<close> with the configured chat; whatever it
  raises is raised again as \<^verbatim>\<open>MessageNotSent\<close>.
\<close>

definition send_message :: "config \<Rightarrow> TeleBot \<Rightarrow> string \<Rightarrow> world \<Rightarrow> (exn + unit) \<times> world" where
  "send_message cfg bot_handle message w =
     (let w' = w\<lparr>telegram := stl (telegram w),
                 posted := posted w @ [(TELEGRAM_CHAT_ID cfg, message)]\<rparr>
      in case shd (telegram w) of
           Delivered \<Rightarrow> (Inr (), w')
         | Refused error \<Rightarrow> (Inl (MessageNotSent (msg_send_failed @ error)), w'))"

text \<open>
  \<^verbatim>\<open>get_api_answer\<close>: one call of \<^verbatim>\<open>requests.get\<close>, then the status of the response, then
  its decoding.
\<close>

definition get_api_answer :: "int \<Rightarrow> world \<Rightarrow> (exn + pyval) \<times> world" where
  "get_api_answer timestamp w =
     (let w' = w\<lparr>net := stl (net w), requested := requested w @ [timestamp]\<rparr>
      in case shd (net w) of
           Raises_RequestException error \<Rightarrow>
             (Inl (RequestError (msg_request_failed @ error)), w')
         | Raises_other error \<Rightarrow> (Inl (OtherException error), w')
         | Responds response \<Rightarrow>
             (and_then (HTTPStatus (status_code response)) (\<lambda>status.
                if status \<noteq> HTTPStatus_OK
                then Inl (RequestError
                  (msg_status_is @ str_int (status_value status) @ '' '' @ phrase status
                    @ msg_full_text @ resp_text response))
                else (case resp_json response of
                        Undecodable error \<Rightarrow>
                          Inl (UnexpectedResponseData (msg_not_parsed @ error))
                      | Decoder_raises error \<Rightarrow> Inl (OtherException error)
                      | Decoded result \<Rightarrow> Inr result)), w'))"

text \<open>\<^verbatim>\<open>check_response\<close>: four checks, in the order of the source.\<close>

definition check_response :: "pyval \<Rightarrow> exn + unit" where
  "check_response response =
     (case response of
        PDict d \<Rightarrow>
          (case map_of d ''homeworks'' of
             None \<Rightarrow> Inl (KeyError msg_no_homeworks)
           | Some homeworks \<Rightarrow>
               (case homeworks of
                  PList xs \<Rightarrow>
                    if xs = [] then Inl (UnexpectedResponseData msg_empty_list) else Inr ()
                | _ \<Rightarrow> Inl (TypeError msg_not_list)))
      | _ \<Rightarrow> Inl (TypeError msg_not_dict))"

text \<open>
  \<^verbatim>\<open>get_latest_homework\<close>: the loop that looks for \<^verbatim>\<open>date_updated\<close> in every item, the keys
  that \<^verbatim>\<open>sorted\<close> computes for all items before it compares any, the sort, and element 0.
\<close>

fun check_dates :: "pyval list \<Rightarrow> exn + unit" where
  "check_dates [] = Inr ()"
| "check_dates (homework # rest) =
     and_then (py_contains ''date_updated'' homework) (\<lambda>present.
       if \<not> present then Inl (KeyError msg_no_date) else check_dates rest)"

fun sort_keys :: "pyval list \<Rightarrow> exn + (pyval \<times> pyval) list" where
  "sort_keys [] = Inr []"
| "sort_keys (homework # rest) =
     and_then (py_getitem homework ''date_updated'') (\<lambda>k.
     and_then (sort_keys rest) (\<lambda>keyed. Inr ((k, homework) # keyed)))"

definition get_latest_homework :: "interp \<Rightarrow> pyval \<Rightarrow> exn + pyval" where
  "get_latest_homework rt response =
     and_then (py_getitem response ''homeworks'') (\<lambda>homeworks.
     and_then (py_iter homeworks) (\<lambda>items.
     and_then (check_dates items) (\<lambda>_.
     and_then (sort_keys items) (\<lambda>keyed.
     and_then (py_sorted_reverse rt keyed) (\<lambda>ordered.
       case ordered of
         [] \<Rightarrow> Inl (IndexError ''list index out of range'')
       | latest # _ \<Rightarrow> Inr latest)))))"

text \<open>
  \<^verbatim>\<open>parse_status\<close>. The lookup of the status in \<^verbatim>\<open>HOMEWORK_VERDICTS\<close> hashes it: a
  list or a dict cannot be hashed, and no value other than a string equals a key of the
  vocabulary. The subscript of line 138 repeats the lookup of line 132 on the same key and
  finds what that one found, so the model looks the status up once.
\<close>

fun lookup_verdict :: "pyval \<Rightarrow> exn + string option" where
  "lookup_verdict (PStr s) = Inr (map_of HOMEWORK_VERDICTS s)"
| "lookup_verdict (PList xs) =
     Inl (TypeError (''unhashable type: '' @ [CHR 0x27] @ ''list'' @ [CHR 0x27]))"
| "lookup_verdict (PDict d) =
     Inl (TypeError (''unhashable type: '' @ [CHR 0x27] @ ''dict'' @ [CHR 0x27]))"
| "lookup_verdict v = Inr None"

definition parse_status :: "interp \<Rightarrow> pyval \<Rightarrow> exn + string" where
  "parse_status rt homework =
     and_then (py_contains ''homework_name'' homework) (\<lambda>has_name.
       if \<not> has_name then Inl (KeyError msg_no_name) else
     and_then (py_contains ''status'' homework) (\<lambda>has_status.
       if \<not> has_status then Inl (KeyError msg_no_status) else
     and_then (py_getitem homework ''status'') (\<lambda>status.
     and_then (lookup_verdict status) (\<lambda>found.
       case found of
         None \<Rightarrow> Inl (KeyError msg_unknown_status)
       | Some verdict \<Rightarrow>
           and_then (py_getitem homework ''homework_name'') (\<lambda>homework_name.
             Inr (msg_status_changed @ py_format rt homework_name
                    @ msg_status_sep @ verdict))))))"

text \<open>
  One cycle of the loop of \<^verbatim>\<open>main\<close>. First the \<^verbatim>\<open>try\<close> block, which computes the status
  or raises; then its two handlers, the first for the four named classes, the second for
  every \<^verbatim>\<open>Exception\<close>.
\<close>

definition poll :: "interp \<Rightarrow> world \<Rightarrow> (exn + string) \<times> world" where
  "poll rt w =
     (case get_api_answer 0 w of
        (r, w') \<Rightarrow>
          (and_then r (\<lambda>response.
           and_then (check_response response) (\<lambda>_.
           and_then (get_latest_homework rt response) (\<lambda>homework.
             parse_status rt homework))), w'))"

fun is_known_failure :: "exn \<Rightarrow> bool" where
  "is_known_failure (UnexpectedResponseData _) = True"
| "is_known_failure (RequestError _) = True"
| "is_known_failure (TypeError _) = True"
| "is_known_failure (KeyError _) = True"
| "is_known_failure _ = False"

definition status_of_failure :: "exn \<Rightarrow> string" where
  "status_of_failure error =
     (if is_known_failure error then msg_technical @ str_exn error
      else msg_unknown_failure @ str_exn error)"

definition compute_status :: "interp \<Rightarrow> world \<Rightarrow> string \<times> world" where
  "compute_status rt w =
     (case poll rt w of
        (Inr current_status, w') \<Rightarrow> (current_status, w')
      | (Inl error, w') \<Rightarrow> (status_of_failure error, w'))"

text \<open>
  Then the comparison with \<^verbatim>\<open>previous_status\<close>, the notification with its two handlers,
  the assignment to \<^verbatim>\<open>previous_status\<close> and the sleep. The state of the loop is
  \<^verbatim>\<open>previous_status\<close> and the world.
\<close>

definition notify :: "config \<Rightarrow> TeleBot \<Rightarrow> string \<Rightarrow> string \<Rightarrow> world \<Rightarrow> string \<times> world" where
  "notify cfg bot_handle previous_status current_status w =
     (if current_status = previous_status then (current_status, w)
      else (case send_message cfg bot_handle current_status w of
              (Inr _, w') \<Rightarrow> (current_status, w')
            | (Inl error, w') \<Rightarrow>
                (case error of
                   MessageNotSent _ \<Rightarrow> (msg_not_sent @ str_exn error, w')
                 | _ \<Rightarrow> (msg_unknown_failure @ str_exn error, w'))))"

definition cycle :: "config \<Rightarrow> interp \<Rightarrow> TeleBot \<Rightarrow> string \<times> world \<Rightarrow> string \<times> world" where
  "cycle cfg rt bot_handle st =
     (case st of
        (previous_status, w) \<Rightarrow>
          (case compute_status rt w of
             (current_status, w1) \<Rightarrow>
               (case notify cfg bot_handle previous_status current_status w1 of
                  (current_status', w2) \<Rightarrow>
                    (current_status', w2\<lparr>slept := slept w2 + RETRY_PERIOD\<rparr>))))"

text \<open>
  \<^verbatim>\<open>while True\<close> never returns: \<open>main_loop\<close> gives the state after a number of cycles,
  for every such number.
\<close>

primrec main_loop ::
  "config \<Rightarrow> interp \<Rightarrow> TeleBot \<Rightarrow> nat \<Rightarrow> string \<times> world \<Rightarrow> string \<times> world" where
  "main_loop cfg rt bot_handle 0 st = st"
| "main_loop cfg rt bot_handle (Suc n) st = main_loop cfg rt bot_handle n (cycle cfg rt bot_handle st)"

text \<open>
  \<^verbatim>\<open>main\<close>, observed after \<open>n\<close> cycles: the process has left through \<^verbatim>\<open>sys.exit\<close> with
  a message, it has ended with an exception that nothing caught, or it is in the loop with
  a \<^verbatim>\<open>previous_status\<close>. The constructor of the bot, called on the token outside every
  \<^verbatim>\<open>try\<close>, belongs to the messaging library and is a parameter \<open>new_bot\<close>: it returns a
  bot or raises.
\<close>

datatype outcome =
    Exited string world
  | Crashed exn world
  | Running string world

definition main ::
  "config \<Rightarrow> interp \<Rightarrow> (string option \<Rightarrow> exn + TeleBot) \<Rightarrow> nat \<Rightarrow> world \<Rightarrow> outcome" where
  "main cfg rt new_bot n w =
     (if \<not> check_tokens cfg then Exited msg_no_tokens w
      else (case new_bot (TELEGRAM_TOKEN cfg) of
              Inl error \<Rightarrow> Crashed error w
            | Inr bot_handle \<Rightarrow>
                (let previous_status = []
                 in case main_loop cfg rt bot_handle n (previous_status, w) of
                      (previous_status', w') \<Rightarrow> Running previous_status' w')))"

text \<open>
  A constructor for the closed examples. That of pyTelegramBotAPI 4 validates the token
  and raises this \<^verbatim>\<open>ValueError\<close> for a token without white space that has no colon.
\<close>

definition TeleBot_colon :: "string option \<Rightarrow> exn + TeleBot" where
  "TeleBot_colon token =
     (case token of
        None \<Rightarrow> Inl (TypeError ([CHR 0x27] @ ''NoneType'' @ [CHR 0x27] @ '' object is not iterable''))
      | Some t \<Rightarrow>
          if CHR '':'' \<notin> set t then Inl (ValueError ''Token must contain a colon'')
          else Inr (TeleBot token))"

text \<open>
  The date of an item, for stating what \<^verbatim>\<open>get_latest_homework\<close> selects; and, for the
  closed examples, an interpreter, a complete configuration and the world in which nothing
  has happened yet.
\<close>

fun date_updated :: "pyval \<Rightarrow> string" where
  "date_updated (PDict d) = (case map_of d ''date_updated'' of Some (PStr s) \<Rightarrow> s | _ \<Rightarrow> [])"
| "date_updated v = []"

definition interp0 :: interp where
  "interp0 = \<lparr>str_of = type_name, sort_mixed = (\<lambda>keyed. Inr (map snd keyed))\<rparr>"

definition cfg0 :: config where
  "cfg0 = \<lparr>TELEGRAM_TOKEN = Some ''1:a'', PRACTICUM_TOKEN = Some ''y0_a'',
            TELEGRAM_CHAT_ID = Some ''42''\<rparr>"

definition fresh_world :: "transport stream \<Rightarrow> delivery stream \<Rightarrow> world" where
  "fresh_world n t = \<lparr>net = n, telegram = t, requested = [], posted = [], slept = 0\<rparr>"

section \<open>Properties\<close>

lemma and_then_Inl [simp]: "and_then (Inl e) f = Inl e"
  by (simp add: and_then_def)

lemma and_then_Inr [simp]: "and_then (Inr x) f = f x"
  by (simp add: and_then_def)

subsection \<open>Configuration\<close>

text \<open>
  C9. \<open>check_tokens\<close> is true if and only if each of the three configuration values
  is set and is not the empty string: as soon as one of them is unset or empty, whichever
  and however many, the result is false.
\<close>

theorem check_tokens_iff:
  "check_tokens cfg \<longleftrightarrow>
     TELEGRAM_TOKEN cfg \<notin> {None, Some []} \<and>
     PRACTICUM_TOKEN cfg \<notin> {None, Some []} \<and>
     TELEGRAM_CHAT_ID cfg \<notin> {None, Some []}"
proof -
  have "py_bool v \<longleftrightarrow> v \<notin> {None, Some []}" for v
    by (cases v) auto
  then show ?thesis
    by (simp add: check_tokens_def)
qed

subsection \<open>Validation of the response\<close>

text \<open>
  C6. \<open>check_response\<close> applies its four rules in order: a value that is not a dict
  raises the first \<open>TypeError\<close>; a dict without the key \<open>homeworks\<close> raises the
  \<open>KeyError\<close>; a dict whose value under \<open>homeworks\<close> is not a list raises the second
  \<open>TypeError\<close>; an empty list there raises \<open>UnexpectedResponseData\<close>; and a dict
  with a non-empty list under \<open>homeworks\<close> passes.
\<close>

theorem check_response_rules:
  "((\<forall>d. response \<noteq> PDict d) \<longrightarrow> check_response response = Inl (TypeError msg_not_dict))
   \<and> (map_of d ''homeworks'' = None \<longrightarrow>
        check_response (PDict d) = Inl (KeyError msg_no_homeworks))
   \<and> (map_of d ''homeworks'' = Some v \<and> (\<forall>xs. v \<noteq> PList xs) \<longrightarrow>
        check_response (PDict d) = Inl (TypeError msg_not_list))
   \<and> (map_of d ''homeworks'' = Some (PList []) \<longrightarrow>
        check_response (PDict d) = Inl (UnexpectedResponseData msg_empty_list))
   \<and> (map_of d ''homeworks'' = Some (PList xs) \<and> xs \<noteq> [] \<longrightarrow>
        check_response (PDict d) = Inr ())"
proof (intro conjI impI)
  assume "\<forall>d. response \<noteq> PDict d"
  then show "check_response response = Inl (TypeError msg_not_dict)"
    by (cases response) (simp_all add: check_response_def)
next
  assume "map_of d ''homeworks'' = Some v \<and> (\<forall>xs. v \<noteq> PList xs)"
  then show "check_response (PDict d) = Inl (TypeError msg_not_list)"
    by (cases v) (simp_all add: check_response_def)
qed (simp_all add: check_response_def)

theorem check_response_rules_witness:
  "check_response (PStr ''homeworks'') = Inl (TypeError msg_not_dict)
   \<and> check_response (PDict []) = Inl (KeyError msg_no_homeworks)
   \<and> check_response (PDict [(''homeworks'', PStr ''x'')]) = Inl (TypeError msg_not_list)
   \<and> check_response (PDict [(''homeworks'', PList [])])
       = Inl (UnexpectedResponseData msg_empty_list)
   \<and> check_response (PDict [(''homeworks'', PList [PNone])]) = Inr ()"
  using check_response_rules [of "PStr ''homeworks''" "[]"]
    check_response_rules [of PNone "[(''homeworks'', PStr ''x'')]" "PStr ''x''"]
    check_response_rules [of PNone "[(''homeworks'', PList [])]"]
    check_response_rules [of PNone "[(''homeworks'', PList [PNone])]" PNone "[PNone]"]
  by simp

subsection \<open>The request to the API\<close>

lemma str_nat_404: "str_nat 404 = ''404''"
  by (simp add: str_nat.simps)

lemma str_nat_500: "str_nat 500 = ''500''"
  by (simp add: str_nat.simps)

lemma str_nat_520: "str_nat 520 = ''520''"
  by (simp add: str_nat.simps)

lemma str_nat_599: "str_nat 599 = ''599''"
  by (simp add: str_nat.simps)

lemma HTTPStatus_200: "HTTPStatus 200 = Inr HTTPStatus_OK"
  by (simp add: HTTPStatus_def HTTPStatus_members_def HTTPStatus_OK_def)

lemma HTTPStatus_member:
  "map_of HTTPStatus_members v = Some p \<Longrightarrow> HTTPStatus v = Inr \<lparr>status_value = v, phrase = p\<rparr>"
  by (simp add: HTTPStatus_def)

lemma HTTPStatus_no_member:
  "map_of HTTPStatus_members v = None \<Longrightarrow>
   HTTPStatus v = Inl (ValueError (str_int v @ '' is not a valid HTTPStatus''))"
  by (simp add: HTTPStatus_def)

text \<open>Whatever the outcome, a call issues one request and uses up one outcome of the net.\<close>

lemma get_api_answer_world:
  "snd (get_api_answer t w) = w\<lparr>net := stl (net w), requested := requested w @ [t]\<rparr>"
  by (simp add: get_api_answer_def Let_def split: transport.split)

text \<open>
  C10. When the request returns a response of status 200 whose body decodes, the call
  returns the decoded value as it is. It does not retry: in every case it has issued
  exactly one request and used exactly one outcome of the net.
\<close>

theorem get_api_answer_ok:
  "(shd (net w) = Responds r \<and> status_code r = 200 \<and> resp_json r = Decoded v \<longrightarrow>
      get_api_answer t w = (Inr v, w\<lparr>net := stl (net w), requested := requested w @ [t]\<rparr>))
   \<and> snd (get_api_answer t w) = w\<lparr>net := stl (net w), requested := requested w @ [t]\<rparr>"
  by (simp add: get_api_answer_def Let_def HTTPStatus_200 split: transport.split)

theorem get_api_answer_ok_witness:
  "get_api_answer 0
     (fresh_world
        (sconst (Responds \<lparr>status_code = 200, resp_text = ''{}'', resp_json = Decoded (PDict [])\<rparr>))
        (sconst Delivered))
   = (Inr (PDict []),
      \<lparr>net = sconst (Responds \<lparr>status_code = 200, resp_text = ''{}'', resp_json = Decoded (PDict [])\<rparr>),
       telegram = sconst Delivered, requested = [0], posted = [], slept = 0\<rparr>)"
  using get_api_answer_ok [where t = 0 and v = "PDict []"
      and r = "\<lparr>status_code = 200, resp_text = ''{}'', resp_json = Decoded (PDict [])\<rparr>"
      and w = "fresh_world
        (sconst (Responds \<lparr>status_code = 200, resp_text = ''{}'', resp_json = Decoded (PDict [])\<rparr>))
        (sconst Delivered)"]
  by (simp add: fresh_world_def)

text \<open>
  The failures that the call classifies: a \<open>RequestException\<close> of the request is raised
  again as a \<open>RequestError\<close> with the text of the cause; a response whose status is a
  member of \<open>HTTPStatus\<close> other than 200 raises a \<open>RequestError\<close> with the status
  code, the phrase and the body; a response of status 200 whose body is not JSON raises
  \<open>UnexpectedResponseData\<close>.
\<close>

lemma get_api_answer_failures:
  "(shd (net w) = Raises_RequestException err \<longrightarrow>
      fst (get_api_answer t w) = Inl (RequestError (msg_request_failed @ err)))
   \<and> (shd (net w) = Responds r \<and> status_code r \<noteq> 200
        \<and> map_of HTTPStatus_members (status_code r) = Some p \<longrightarrow>
      fst (get_api_answer t w) = Inl (RequestError
        (msg_status_is @ str_int (status_code r) @ '' '' @ p @ msg_full_text @ resp_text r)))
   \<and> (shd (net w) = Responds r \<and> status_code r = 200 \<and> resp_json r = Undecodable err \<longrightarrow>
      fst (get_api_answer t w) = Inl (UnexpectedResponseData (msg_not_parsed @ err)))"
  by (auto simp add: get_api_answer_def Let_def HTTPStatus_200 HTTPStatus_member
      HTTPStatus_OK_def)

text \<open>
  C3. Lines 65 to 69 raise a \<open>RequestError\<close> with the code, the phrase and the body for
  a status other than 200, and a response of status 404 gets it. A response of status 520,
  which is no member of \<open>HTTPStatus\<close>, does not: the conversion of line 64 raises the
  \<open>ValueError\<close> of the enumeration before line 65 compares anything, and the loop
  reports an unknown failure where it reports technical problems for 404.
\<close>

theorem get_api_answer_unlisted_status:
  "fst (get_api_answer 0
          (fresh_world
             (sconst (Responds
                \<lparr>status_code = 520, resp_text = ''origin error'', resp_json = Undecodable ''no''\<rparr>))
             (sconst Delivered)))
     = Inl (ValueError ''520 is not a valid HTTPStatus'')
   \<and> fst (compute_status interp0
          (fresh_world
             (sconst (Responds
                \<lparr>status_code = 520, resp_text = ''origin error'', resp_json = Undecodable ''no''\<rparr>))
             (sconst Delivered)))
     = msg_unknown_failure @ ''520 is not a valid HTTPStatus''
   \<and> fst (get_api_answer 0
          (fresh_world
             (sconst (Responds
                \<lparr>status_code = 404, resp_text = ''gone'', resp_json = Undecodable ''no''\<rparr>))
             (sconst Delivered)))
     = Inl (RequestError (msg_status_is @ ''404 Not Found'' @ msg_full_text @ ''gone''))
   \<and> fst (compute_status interp0
          (fresh_world
             (sconst (Responds
                \<lparr>status_code = 404, resp_text = ''gone'', resp_json = Undecodable ''no''\<rparr>))
             (sconst Delivered)))
     = msg_technical @ msg_status_is @ ''404 Not Found'' @ msg_full_text @ ''gone''"
  by (simp add: compute_status_def poll_def status_of_failure_def get_api_answer_def Let_def
      fresh_world_def HTTPStatus_def HTTPStatus_OK_def HTTPStatus_members_def str_int_def
      str_nat_520 str_nat_404)

text \<open>
  C4. When the status code of the response is no member of \<open>HTTPStatus\<close>, the call
  raises the \<open>ValueError\<close> of the enumeration; and when a response makes it raise a
  \<open>RequestError\<close>, the status code is a member of \<open>HTTPStatus\<close> and is not 200.
\<close>

theorem get_api_answer_status_members:
  "shd (net w) = Responds r \<Longrightarrow>
   (status_code r \<notin> set (map fst HTTPStatus_members) \<longrightarrow>
      fst (get_api_answer t w)
        = Inl (ValueError (str_int (status_code r) @ '' is not a valid HTTPStatus'')))
   \<and> (\<forall>m. fst (get_api_answer t w) = Inl (RequestError m) \<longrightarrow>
        status_code r \<in> set (map fst HTTPStatus_members) \<and> status_code r \<noteq> 200)"
proof (intro conjI impI allI)
  assume r: "shd (net w) = Responds r"
  {
    assume "status_code r \<notin> set (map fst HTTPStatus_members)"
    then have "map_of HTTPStatus_members (status_code r) = None"
      by (simp add: map_of_eq_None_iff)
    with r show "fst (get_api_answer t w)
        = Inl (ValueError (str_int (status_code r) @ '' is not a valid HTTPStatus''))"
      by (simp add: get_api_answer_def Let_def HTTPStatus_no_member)
  }
  fix m
  assume m: "fst (get_api_answer t w) = Inl (RequestError m)"
  show "status_code r \<in> set (map fst HTTPStatus_members)"
  proof (rule ccontr)
    assume "status_code r \<notin> set (map fst HTTPStatus_members)"
    then have "map_of HTTPStatus_members (status_code r) = None"
      by (simp add: map_of_eq_None_iff)
    with r m show False
      by (simp add: get_api_answer_def Let_def HTTPStatus_no_member)
  qed
  show "status_code r \<noteq> 200"
  proof
    assume "status_code r = 200"
    with r m show False
      by (simp add: get_api_answer_def Let_def HTTPStatus_200 split: decoding.splits)
  qed
qed

theorem get_api_answer_status_members_witness:
  "(599 :: int) \<notin> set (map fst HTTPStatus_members)
   \<and> fst (get_api_answer 0
          (fresh_world
             (sconst (Responds \<lparr>status_code = 599, resp_text = ''x'', resp_json = Undecodable ''no''\<rparr>))
             (sconst Delivered)))
     = Inl (ValueError ''599 is not a valid HTTPStatus'')
   \<and> fst (get_api_answer 0
          (fresh_world
             (sconst (Responds \<lparr>status_code = 500, resp_text = ''x'', resp_json = Undecodable ''no''\<rparr>))
             (sconst Delivered)))
     = Inl (RequestError (msg_status_is @ ''500 Internal Server Error'' @ msg_full_text @ ''x''))
   \<and> (500 :: int) \<in> set (map fst HTTPStatus_members)"
  using get_api_answer_status_members [where t = 0
      and r = "\<lparr>status_code = 599, resp_text = ''x'', resp_json = Undecodable ''no''\<rparr>"
      and w = "fresh_world
             (sconst (Responds \<lparr>status_code = 599, resp_text = ''x'', resp_json = Undecodable ''no''\<rparr>))
             (sconst Delivered)"]
    get_api_answer_status_members [where t = 0
      and r = "\<lparr>status_code = 500, resp_text = ''x'', resp_json = Undecodable ''no''\<rparr>"
      and w = "fresh_world
             (sconst (Responds \<lparr>status_code = 500, resp_text = ''x'', resp_json = Undecodable ''no''\<rparr>))
             (sconst Delivered)"]
  by (simp add: fresh_world_def get_api_answer_def Let_def HTTPStatus_def HTTPStatus_OK_def
      HTTPStatus_members_def str_int_def str_nat_599 str_nat_500)

subsection \<open>The status message\<close>

lemma py_format_str [simp]: "py_format rt (PStr s) = s"
  by (simp add: py_format_def)

lemma lookup_verdict_None:
  "(\<forall>xs. s \<noteq> PList xs) \<Longrightarrow> (\<forall>dd. s \<noteq> PDict dd) \<Longrightarrow>
   s \<notin> PStr ` set (map fst HOMEWORK_VERDICTS) \<Longrightarrow> lookup_verdict s = Inr None"
  by (cases s) (auto simp: map_of_eq_None_iff)

lemma map_of_Some_key: "map_of d k = Some v \<Longrightarrow> k \<in> fst ` set d"
  by (metis domI dom_map_of_conv_image_fst)

text \<open>
  C8, as the code has it. For an item that is a dict, \<open>parse_status\<close> raises a
  \<open>KeyError\<close> when the key \<open>homework_name\<close> is missing, another when the key
  \<open>status\<close> is missing, a third when the status is a value that can be hashed (a string,
  a number, a boolean or \<^verbatim>\<open>None\<close>) outside the verdict vocabulary, and the three messages
  differ. For a dict with both keys and a status of the vocabulary it returns the sentence
  of the source (in Russian: the review status of the work changed), the name between
  quotation marks, a full stop, a space and the verdict of that status; a name that is a
  string stands for itself.
\<close>

theorem parse_status_message:
  "(''homework_name'' \<notin> set (map fst d) \<longrightarrow>
      parse_status rt (PDict d) = Inl (KeyError msg_no_name))
   \<and> (''homework_name'' \<in> set (map fst d) \<and> ''status'' \<notin> set (map fst d) \<longrightarrow>
      parse_status rt (PDict d) = Inl (KeyError msg_no_status))
   \<and> (''homework_name'' \<in> set (map fst d) \<and> map_of d ''status'' = Some s
        \<and> (\<forall>xs. s \<noteq> PList xs) \<and> (\<forall>dd. s \<noteq> PDict dd)
        \<and> s \<notin> PStr ` set (map fst HOMEWORK_VERDICTS) \<longrightarrow>
      parse_status rt (PDict d) = Inl (KeyError msg_unknown_status))
   \<and> (map_of d ''homework_name'' = Some name \<and> map_of d ''status'' = Some (PStr st)
        \<and> map_of HOMEWORK_VERDICTS st = Some verdict \<longrightarrow>
      parse_status rt (PDict d)
        = Inr (msg_status_changed @ py_format rt name @ msg_status_sep @ verdict))
   \<and> py_format rt (PStr n) = n
   \<and> distinct [msg_no_name, msg_no_status, msg_unknown_status]"
proof (intro conjI impI)
  show "distinct [msg_no_name, msg_no_status, msg_unknown_status]"
    by (simp add: msg_no_name_def msg_no_status_def msg_unknown_status_def)
next
  assume a: "''homework_name'' \<in> set (map fst d) \<and> map_of d ''status'' = Some s
        \<and> (\<forall>xs. s \<noteq> PList xs) \<and> (\<forall>dd. s \<noteq> PDict dd)
        \<and> s \<notin> PStr ` set (map fst HOMEWORK_VERDICTS)"
  then have "lookup_verdict s = Inr None"
    by (simp add: lookup_verdict_None)
  moreover from a have "''status'' \<in> fst ` set d"
    by (simp add: map_of_Some_key)
  ultimately show "parse_status rt (PDict d) = Inl (KeyError msg_unknown_status)"
    using a by (simp add: parse_status_def)
next
  assume a: "map_of d ''homework_name'' = Some name \<and> map_of d ''status'' = Some (PStr st)
        \<and> map_of HOMEWORK_VERDICTS st = Some verdict"
  then have "''homework_name'' \<in> fst ` set d" "''status'' \<in> fst ` set d"
    by (simp_all add: map_of_Some_key)
  with a show "parse_status rt (PDict d)
        = Inr (msg_status_changed @ py_format rt name @ msg_status_sep @ verdict)"
    by (simp add: parse_status_def)
qed (simp_all add: parse_status_def)

theorem parse_status_message_witness:
  "parse_status interp0 (PDict [(''status'', PStr ''approved'')]) = Inl (KeyError msg_no_name)
   \<and> parse_status interp0 (PDict [(''homework_name'', PStr ''hw1'')])
        = Inl (KeyError msg_no_status)
   \<and> parse_status interp0 (PDict [(''homework_name'', PStr ''hw1''), (''status'', PStr ''lost'')])
        = Inl (KeyError msg_unknown_status)
   \<and> parse_status interp0
        (PDict [(''homework_name'', PStr ''hw1''), (''status'', PStr ''approved'')])
        = Inr (msg_status_changed @ ''hw1'' @ msg_status_sep @ verdict_approved)"
  using parse_status_message [where d = "[(''status'', PStr ''approved'')]" and rt = interp0]
    parse_status_message [where d = "[(''homework_name'', PStr ''hw1'')]" and rt = interp0]
    parse_status_message [where d = "[(''homework_name'', PStr ''hw1''), (''status'', PStr ''lost'')]"
      and s = "PStr ''lost''" and rt = interp0]
    parse_status_message [where d = "[(''homework_name'', PStr ''hw1''), (''status'', PStr ''approved'')]"
      and rt = interp0 and name = "PStr ''hw1''" and st = "''approved''"
      and verdict = verdict_approved]
  by (simp add: HOMEWORK_VERDICTS_def)

text \<open>
  The claim as the specification states it fails in three places. A status that is a list
  is no member of the vocabulary, and line 132 raises a \<open>TypeError\<close>, not a
  \<open>KeyError\<close>, because a list cannot be hashed. An item that is \<^verbatim>\<open>None\<close> has no key
  \<open>homework_name\<close>, and line 124 raises a \<open>TypeError\<close>, not a \<open>KeyError\<close>. And for
  the item of the specification's own example the code does not return the English
  sentence that the specification quotes.
\<close>

theorem parse_status_counterexample:
  "parse_status interp0 (PDict [(''homework_name'', PStr ''hw1''), (''status'', PList [])])
     = Inl (TypeError (''unhashable type: '' @ [CHR 0x27] @ ''list'' @ [CHR 0x27]))
   \<and> parse_status interp0 PNone
     = Inl (TypeError (''argument of type '' @ [CHR 0x27] @ ''NoneType'' @ [CHR 0x27]
          @ '' is not iterable''))
   \<and> parse_status interp0
        (PDict [(''homework_name'', PStr ''hw1''), (''status'', PStr ''approved'')])
     \<noteq> Inr (''Changed review status for '' @ [CHR 0x22] @ ''hw1'' @ [CHR 0x22] @ ''. ''
           @ verdict_approved)"
  by (simp add: parse_status_def HOMEWORK_VERDICTS_def msg_status_changed_def)

subsection \<open>The latest homework\<close>

text \<open>
  Where the last element of a stable ascending sort comes from: it is the last of the
  elements of greatest key.
\<close>

lemma last_insort_key:
  "last (insort_key f a ys) = (if \<forall>y\<in>set ys. f y < f a then a else last ys)"
proof (induction ys)
  case Nil
  then show ?case by simp
next
  case (Cons y ys)
  show ?case
  proof (cases "f a \<le> f y")
    case True
    then show ?thesis by auto
  next
    case False
    have ne: "insort_key f a ys \<noteq> []"
      by (cases ys) auto
    from False ne Cons show ?thesis
      by (cases ys) auto
  qed
qed

lemma last_sort_key:
  "xs \<noteq> [] \<Longrightarrow>
   \<exists>pre x post. xs = pre @ x # post \<and> last (sort_key f xs) = x
     \<and> (\<forall>y\<in>set pre. f y \<le> f x) \<and> (\<forall>y\<in>set post. f y < f x)"
proof (induction xs)
  case Nil
  then show ?case by simp
next
  case (Cons a xs)
  show ?case
  proof (cases "xs = []")
    case True
    then have "a # xs = [] @ a # [] \<and> last (sort_key f (a # xs)) = a" by simp
    with True show ?thesis by fastforce
  next
    case False
    with Cons.IH obtain pre x post where
      split: "xs = pre @ x # post" and lst: "last (sort_key f xs) = x"
      and le: "\<forall>y\<in>set pre. f y \<le> f x" and less: "\<forall>y\<in>set post. f y < f x"
      by blast
    have all_le: "\<forall>y\<in>set xs. f y \<le> f x"
      using split le less by auto
    have step: "last (sort_key f (a # xs)) = (if \<forall>y\<in>set xs. f y < f a then a else x)"
      using lst by (simp add: last_insort_key)
    show ?thesis
    proof (cases "\<forall>y\<in>set xs. f y < f a")
      case True
      with step have "a # xs = [] @ a # xs \<and> last (sort_key f (a # xs)) = a
        \<and> (\<forall>y\<in>set []. f y \<le> f a) \<and> (\<forall>y\<in>set xs. f y < f a)"
        by simp
      then show ?thesis by blast
    next
      case False
      then obtain y where "y \<in> set xs" "f a \<le> f y" by force
      with all_le have "f a \<le> f x" by force
      moreover from step False have "last (sort_key f (a # xs)) = x"
        by presburger
      moreover from split have "a # xs = (a # pre) @ x # post"
        by simp
      ultimately have "a # xs = (a # pre) @ x # post \<and> last (sort_key f (a # xs)) = x
        \<and> (\<forall>y\<in>set (a # pre). f y \<le> f x) \<and> (\<forall>y\<in>set post. f y < f x)"
        using le less by simp
      then show ?thesis by blast
    qed
  qed
qed

text \<open>The stable descending sort puts in front the first of the items of greatest key.\<close>

lemma hd_sorted_reverse:
  assumes "xs \<noteq> []"
  shows "\<exists>pre x post. xs = pre @ x # post \<and> hd (rev (sort_key f (rev xs))) = x
     \<and> (\<forall>y\<in>set pre. f y < f x) \<and> (\<forall>y\<in>set post. f y \<le> f x)"
proof -
  from assms have "rev xs \<noteq> []" by simp
  from last_sort_key [OF this, of f] obtain pre x post where
    split: "rev xs = pre @ x # post" and lst: "last (sort_key f (rev xs)) = x"
    and le: "\<forall>y\<in>set pre. f y \<le> f x" and less: "\<forall>y\<in>set post. f y < f x"
    by blast
  from split have "rev (rev xs) = rev (pre @ x # post)" by simp
  then have xs: "xs = rev post @ x # rev pre" by simp
  have ne: "sort_key f (rev xs) \<noteq> []"
    using assms by (metis length_0_conv length_sort rev_is_Nil_conv)
  then have "hd (rev (sort_key f (rev xs))) = x"
    using lst by (simp add: hd_rev)
  with xs le less show ?thesis
    by (metis set_rev)
qed

lemma check_dates_ok:
  "\<forall>h\<in>set items. \<exists>hd s. h = PDict hd \<and> map_of hd ''date_updated'' = Some (PStr s) \<Longrightarrow>
   check_dates items = Inr ()"
proof (induction items)
  case Nil
  then show ?case by simp
next
  case (Cons h items)
  then obtain hd s where h: "h = PDict hd" "map_of hd ''date_updated'' = Some (PStr s)"
    by auto
  then have "''date_updated'' \<in> fst ` set hd"
    by (metis domI dom_map_of_conv_image_fst)
  with h Cons show ?case by simp
qed

lemma sort_keys_ok:
  "\<forall>h\<in>set items. \<exists>hd s. h = PDict hd \<and> map_of hd ''date_updated'' = Some (PStr s) \<Longrightarrow>
   sort_keys items = Inr (map (\<lambda>h. (PStr (date_updated h), h)) items)"
proof (induction items)
  case Nil
  then show ?case by simp
next
  case (Cons h items)
  then obtain hd s where h: "h = PDict hd" "map_of hd ''date_updated'' = Some (PStr s)"
    by auto
  with Cons show ?case by simp
qed

lemma check_dates_missing:
  "\<forall>h\<in>set items. \<exists>hd. h = PDict hd \<Longrightarrow>
   \<exists>h\<in>set items. \<exists>hd. h = PDict hd \<and> ''date_updated'' \<notin> set (map fst hd) \<Longrightarrow>
   check_dates items = Inl (KeyError msg_no_date)"
proof (induction items)
  case Nil
  then show ?case by simp
next
  case (Cons h items)
  from Cons.prems(1) obtain hd where h: "h = PDict hd" by auto
  show ?case
  proof (cases "''date_updated'' \<in> set (map fst hd)")
    case True
    with h Cons.prems have "\<exists>h\<in>set items. \<exists>hd. h = PDict hd \<and> ''date_updated'' \<notin> set (map fst hd)"
      by auto
    with Cons h True show ?thesis by simp
  next
    case False
    with h show ?thesis by simp
  qed
qed

lemma py_sorted_reverse_strings:
  "py_sorted_reverse rt (map (\<lambda>h. (PStr (date_updated h), h)) items)
     = Inr (map snd (rev (sort_key (\<lambda>(k, x). str_val k)
         (rev (map (\<lambda>h. (PStr (date_updated h), h)) items)))))"
proof (cases "length items < 2")
  case True
  then have "items = [] \<or> (\<exists>h. items = [h])"
    by (cases items) (auto simp: length_Suc_conv less_Suc_eq_0_disj numeral_2_eq_2)
  then show ?thesis
    by (auto simp: py_sorted_reverse_def)
next
  case False
  then show ?thesis
    by (simp add: py_sorted_reverse_def list_all_iff)
qed

text \<open>
  C7, as the code has it. Let the response be a dict with a list under \<open>homeworks\<close>.
  When the list is not empty and every item is a dict with a string under
  \<open>date_updated\<close>, \<open>get_latest_homework\<close> returns an item of greatest date in the
  lexicographic order of strings, and the first such item of the list: every item before it
  has a smaller date, every item after it a date that is not greater. When every item is a
  dict and one of them has no key \<open>date_updated\<close>, it raises the \<open>KeyError\<close> of the
  source.
\<close>

theorem get_latest_homework_latest:
  assumes "map_of d ''homeworks'' = Some (PList items)"
  shows "(items \<noteq> []
      \<and> (\<forall>h\<in>set items. \<exists>hd s. h = PDict hd \<and> map_of hd ''date_updated'' = Some (PStr s)) \<longrightarrow>
      (\<exists>pre h post. items = pre @ h # post
         \<and> get_latest_homework rt (PDict d) = Inr h
         \<and> (\<forall>x\<in>set pre. date_updated x < date_updated h)
         \<and> (\<forall>x\<in>set post. date_updated x \<le> date_updated h)))
   \<and> ((\<forall>h\<in>set items. \<exists>hd. h = PDict hd)
      \<and> (\<exists>h\<in>set items. \<exists>hd. h = PDict hd \<and> ''date_updated'' \<notin> set (map fst hd)) \<longrightarrow>
      get_latest_homework rt (PDict d) = Inl (KeyError msg_no_date))"
proof (intro conjI impI)
  assume "(\<forall>h\<in>set items. \<exists>hd. h = PDict hd)
      \<and> (\<exists>h\<in>set items. \<exists>hd. h = PDict hd \<and> ''date_updated'' \<notin> set (map fst hd))"
  then have "check_dates items = Inl (KeyError msg_no_date)"
    by (simp add: check_dates_missing)
  with assms show "get_latest_homework rt (PDict d) = Inl (KeyError msg_no_date)"
    by (simp add: get_latest_homework_def)
next
  assume a: "items \<noteq> []
      \<and> (\<forall>h\<in>set items. \<exists>hd s. h = PDict hd \<and> map_of hd ''date_updated'' = Some (PStr s))"
  define g where "g = (\<lambda>h. (PStr (date_updated h), h))"
  define f where "f = (\<lambda>(k :: pyval, x :: pyval). str_val k)"
  define keyed where "keyed = map g items"
  define ordered where "ordered = map snd (rev (sort_key f (rev keyed)))"
  from a have ne: "keyed \<noteq> []"
    by (simp add: keyed_def)
  from hd_sorted_reverse [OF ne, of f] obtain pre x post where
    split: "keyed = pre @ x # post" and first: "hd (rev (sort_key f (rev keyed))) = x"
    and less: "\<forall>y\<in>set pre. f y < f x" and le: "\<forall>y\<in>set post. f y \<le> f x"
    by blast
  have key: "f p = date_updated (snd p)" if "p \<in> set keyed" for p
    using that by (auto simp: keyed_def g_def f_def)
  have items: "items = map snd pre @ snd x # map snd post"
  proof -
    have "map snd keyed = items"
      by (simp add: keyed_def g_def comp_def)
    with split show ?thesis by simp
  qed
  have sorted_ne: "rev (sort_key f (rev keyed)) \<noteq> []"
    using ne by (metis length_0_conv length_sort rev_is_Nil_conv)
  then have "ordered \<noteq> []" and "hd ordered = snd x"
    using first by (simp_all add: ordered_def hd_map)
  then obtain rest where ordered: "ordered = snd x # rest"
    by (cases ordered) auto
  have "py_sorted_reverse rt keyed = Inr ordered"
    unfolding keyed_def g_def ordered_def f_def by (rule py_sorted_reverse_strings)
  moreover have "check_dates items = Inr ()"
    using a by (simp add: check_dates_ok)
  moreover have "sort_keys items = Inr keyed"
    using a by (simp add: sort_keys_ok keyed_def g_def)
  ultimately have result: "get_latest_homework rt (PDict d) = Inr (snd x)"
    using assms ordered by (simp add: get_latest_homework_def)
  have "\<forall>h\<in>set (map snd pre). date_updated h < date_updated (snd x)"
    using less key split by auto
  moreover have "\<forall>h\<in>set (map snd post). date_updated h \<le> date_updated (snd x)"
    using le key split by auto
  ultimately show "\<exists>pre h post. items = pre @ h # post
         \<and> get_latest_homework rt (PDict d) = Inr h
         \<and> (\<forall>x\<in>set pre. date_updated x < date_updated h)
         \<and> (\<forall>x\<in>set post. date_updated x \<le> date_updated h)"
    using items result by blast
qed

theorem get_latest_homework_latest_witness:
  "get_latest_homework interp0 (PDict [(''homeworks'', PList
       [PDict [(''date_updated'', PStr ''2023-01-01''), (''homework_name'', PStr ''a'')],
        PDict [(''date_updated'', PStr ''2023-02-01''), (''homework_name'', PStr ''b'')],
        PDict [(''date_updated'', PStr ''2023-02-01''), (''homework_name'', PStr ''c'')]])])
     = Inr (PDict [(''date_updated'', PStr ''2023-02-01''), (''homework_name'', PStr ''b'')])
   \<and> get_latest_homework interp0 (PDict [(''homeworks'', PList
       [PDict [(''date_updated'', PStr ''2023-01-01''), (''homework_name'', PStr ''a'')],
        PDict [(''homework_name'', PStr ''b'')]])])
     = Inl (KeyError msg_no_date)"
  using get_latest_homework_latest [where rt = interp0 and d = "[(''homeworks'', PList
       [PDict [(''date_updated'', PStr ''2023-01-01''), (''homework_name'', PStr ''a'')],
        PDict [(''date_updated'', PStr ''2023-02-01''), (''homework_name'', PStr ''b'')],
        PDict [(''date_updated'', PStr ''2023-02-01''), (''homework_name'', PStr ''c'')]])]"
     and items = "[PDict [(''date_updated'', PStr ''2023-01-01''), (''homework_name'', PStr ''a'')],
        PDict [(''date_updated'', PStr ''2023-02-01''), (''homework_name'', PStr ''b'')],
        PDict [(''date_updated'', PStr ''2023-02-01''), (''homework_name'', PStr ''c'')]]"]
    get_latest_homework_latest [where rt = interp0 and d = "[(''homeworks'', PList
       [PDict [(''date_updated'', PStr ''2023-01-01''), (''homework_name'', PStr ''a'')],
        PDict [(''homework_name'', PStr ''b'')]])]"
     and items = "[PDict [(''date_updated'', PStr ''2023-01-01''), (''homework_name'', PStr ''a'')],
        PDict [(''homework_name'', PStr ''b'')]]"]
  by (simp add: get_latest_homework_def py_sorted_reverse_def)

text \<open>
  The claim as the specification states it fails for an item that is no dict and for dates
  that are no strings. The item \<^verbatim>\<open>None\<close> has no \<open>date_updated\<close>, and line 110 raises a
  \<open>TypeError\<close>, not a \<open>KeyError\<close>. Of two items dated with the integers 9 and 10 the
  code returns the second, the greater integer, while in the lexicographic order of their
  digits 9 is the greater.
\<close>

theorem get_latest_homework_counterexample:
  "get_latest_homework interp0 (PDict [(''homeworks'', PList [PNone])])
     = Inl (TypeError (''argument of type '' @ [CHR 0x27] @ ''NoneType'' @ [CHR 0x27]
          @ '' is not iterable''))
   \<and> get_latest_homework interp0 (PDict [(''homeworks'', PList
        [PDict [(''date_updated'', PInt 9)], PDict [(''date_updated'', PInt 10)]])])
     = Inr (PDict [(''date_updated'', PInt 10)])
   \<and> str_int 10 < str_int 9"
  by (simp add: get_latest_homework_def py_sorted_reverse_def str_int_def str_nat.simps)

subsection \<open>The loop\<close>

lemma and_then_eq_Inr: "and_then r f = Inr y \<Longrightarrow> \<exists>x. r = Inr x \<and> f x = Inr y"
  by (cases r) simp_all

lemma poll_world:
  "snd (poll rt w) = w\<lparr>net := stl (net w), requested := requested w @ [0]\<rparr>"
  using get_api_answer_world [of 0 w] by (auto simp: poll_def split: prod.split)

lemma compute_status_world:
  "snd (compute_status rt w) = w\<lparr>net := stl (net w), requested := requested w @ [0]\<rparr>"
  using poll_world [of rt w] by (auto simp: compute_status_def split: prod.split sum.split)

lemma compute_status_failure:
  "fst (poll rt w) = Inl error \<Longrightarrow> fst (compute_status rt w) = status_of_failure error"
  by (auto simp: compute_status_def split: prod.split sum.split)

lemma compute_status_success:
  "fst (poll rt w) = Inr s \<Longrightarrow> fst (compute_status rt w) = s"
  by (auto simp: compute_status_def split: prod.split sum.split)

lemma notify_same:
  "notify cfg b p p w = (p, w)"
  by (simp add: notify_def)

lemma notify_delivered:
  "s \<noteq> p \<Longrightarrow> shd (telegram w) = Delivered \<Longrightarrow>
   notify cfg b p s w
     = (s, w\<lparr>telegram := stl (telegram w), posted := posted w @ [(TELEGRAM_CHAT_ID cfg, s)]\<rparr>)"
  by (simp add: notify_def send_message_def Let_def)

lemma notify_refused:
  "s \<noteq> p \<Longrightarrow> shd (telegram w) = Refused err \<Longrightarrow>
   notify cfg b p s w
     = (msg_not_sent @ msg_send_failed @ err,
        w\<lparr>telegram := stl (telegram w), posted := posted w @ [(TELEGRAM_CHAT_ID cfg, s)]\<rparr>)"
  by (simp add: notify_def send_message_def Let_def)

lemma notify_posted:
  "posted (snd (notify cfg b p s w))
     = posted w @ (if s = p then [] else [(TELEGRAM_CHAT_ID cfg, s)])"
  by (cases "shd (telegram w)") (simp_all add: notify_def send_message_def Let_def)

lemma notify_rest:
  "net (snd (notify cfg b p s w)) = net w \<and> requested (snd (notify cfg b p s w)) = requested w
   \<and> slept (snd (notify cfg b p s w)) = slept w"
  by (cases "shd (telegram w)") (simp_all add: notify_def send_message_def Let_def)

lemma cycle_eq:
  "cycle cfg rt b (p, w) =
     (fst (notify cfg b p (fst (compute_status rt w)) (snd (compute_status rt w))),
      (snd (notify cfg b p (fst (compute_status rt w)) (snd (compute_status rt w))))
        \<lparr>slept := slept (snd (notify cfg b p (fst (compute_status rt w))
            (snd (compute_status rt w)))) + RETRY_PERIOD\<rparr>)"
  by (simp add: cycle_def split: prod.split)

lemma cycle_progress:
  "slept (snd (cycle cfg rt b st)) = slept (snd st) + RETRY_PERIOD
   \<and> requested (snd (cycle cfg rt b st)) = requested (snd st) @ [0]"
  by (cases st) (simp add: cycle_eq notify_rest compute_status_world)

lemma main_loop_progress:
  "slept (snd (main_loop cfg rt b n st)) = slept (snd st) + n * RETRY_PERIOD
   \<and> length (requested (snd (main_loop cfg rt b n st))) = length (requested (snd st)) + n"
proof (induction n arbitrary: st)
  case 0
  then show ?case by simp
next
  case (Suc n)
  from Suc [of "cycle cfg rt b st"] show ?case
    by (simp add: cycle_progress)
qed

lemma main_loop_funpow: "main_loop cfg rt b n st = (cycle cfg rt b ^^ n) st"
  by (induction n arbitrary: st) (simp_all add: funpow_swap1)

lemma is_known_failure_iff:
  "is_known_failure error \<longleftrightarrow>
     (\<exists>m. error = UnexpectedResponseData m \<or> error = RequestError m
        \<or> error = TypeError m \<or> error = KeyError m)"
  by (cases error) simp_all

text \<open>
  C2, as the code has it. Before the loop the process ends in two ways: when a
  configuration value is missing, through \<^verbatim>\<open>sys.exit\<close> with the message of the source; and
  when the constructor of the bot raises, with that exception, which nothing catches. When
  the constructor returns, \<open>main\<close> never leaves the loop by itself: for every number \<open>n\<close>
  and every behaviour of the net, of the bot and of the interpreter it is in the loop after
  \<open>n\<close> cycles, in the state that \<open>n\<close> cycles lead to from the empty
  \<open>previous_status\<close>, with \<open>n\<close> more requests issued and \<open>n\<close> sleeps. A cycle whose
  polling block raises an exception is a full cycle: the exception becomes the status, the
  technical-problems text for the four named classes and the unknown-failure text for every
  other class, each followed by the text of the exception; the status is compared and sent
  like any other, and the cycle ends with the sleep.
\<close>

theorem main_never_returns:
  "(\<not> check_tokens cfg \<longrightarrow> main cfg rt new_bot n w = Exited msg_no_tokens w)
   \<and> (check_tokens cfg \<and> new_bot (TELEGRAM_TOKEN cfg) = Inl e \<longrightarrow>
        main cfg rt new_bot n w = Crashed e w)
   \<and> (check_tokens cfg \<and> new_bot (TELEGRAM_TOKEN cfg) = Inr b \<longrightarrow>
        main cfg rt new_bot n w
          = Running (fst ((cycle cfg rt b ^^ n) ([], w))) (snd ((cycle cfg rt b ^^ n) ([], w))))
   \<and> length (requested (snd ((cycle cfg rt b ^^ n) (p, w)))) = length (requested w) + n
   \<and> slept (snd ((cycle cfg rt b ^^ n) (p, w))) = slept w + n * RETRY_PERIOD
   \<and> (fst (poll rt w) = Inl error \<longrightarrow>
        cycle cfg rt b (p, w)
          = (let current_status =
                   (if \<exists>m. error = UnexpectedResponseData m \<or> error = RequestError m
                         \<or> error = TypeError m \<or> error = KeyError m
                    then msg_technical else msg_unknown_failure) @ str_exn error;
                 w1 = w\<lparr>net := stl (net w), requested := requested w @ [0],
                        slept := slept w + RETRY_PERIOD\<rparr>
             in if current_status = p then (current_status, w1)
                else (case shd (telegram w) of
                        Delivered \<Rightarrow> current_status
                      | Refused err \<Rightarrow> msg_not_sent @ msg_send_failed @ err,
                      w1\<lparr>telegram := stl (telegram w),
                         posted := posted w @ [(TELEGRAM_CHAT_ID cfg, current_status)]\<rparr>)))"
proof (intro conjI impI)
  assume "check_tokens cfg \<and> new_bot (TELEGRAM_TOKEN cfg) = Inr b"
  then show "main cfg rt new_bot n w
          = Running (fst ((cycle cfg rt b ^^ n) ([], w))) (snd ((cycle cfg rt b ^^ n) ([], w)))"
    by (simp add: main_def main_loop_funpow [symmetric] split: prod.split)
next
  from main_loop_progress [of cfg rt b n "(p, w)"]
  show "length (requested (snd ((cycle cfg rt b ^^ n) (p, w)))) = length (requested w) + n"
    and "slept (snd ((cycle cfg rt b ^^ n) (p, w))) = slept w + n * RETRY_PERIOD"
    by (simp_all add: main_loop_funpow)
next
  assume raised: "fst (poll rt w) = Inl error"
  define s where "s = (if \<exists>m. error = UnexpectedResponseData m \<or> error = RequestError m
                         \<or> error = TypeError m \<or> error = KeyError m
                    then msg_technical else msg_unknown_failure) @ str_exn error"
  have status: "fst (compute_status rt w) = s"
    using compute_status_failure [OF raised]
    by (simp add: status_of_failure_def is_known_failure_iff s_def)
  have "cycle cfg rt b (p, w)
      = (if s = p
         then (s, w\<lparr>net := stl (net w), requested := requested w @ [0],
                   slept := slept w + RETRY_PERIOD\<rparr>)
         else (case shd (telegram w) of
                 Delivered \<Rightarrow> s
               | Refused err \<Rightarrow> msg_not_sent @ msg_send_failed @ err,
               w\<lparr>net := stl (net w), requested := requested w @ [0],
                 slept := slept w + RETRY_PERIOD, telegram := stl (telegram w),
                 posted := posted w @ [(TELEGRAM_CHAT_ID cfg, s)]\<rparr>))"
  proof (cases "s = p")
    case True
    with status show ?thesis
      by (simp add: cycle_eq notify_same compute_status_world)
  next
    case False
    with status show ?thesis
      by (cases "shd (telegram w)")
        (simp_all add: cycle_eq notify_delivered notify_refused compute_status_world)
  qed
  then show "cycle cfg rt b (p, w)
          = (let current_status =
                   (if \<exists>m. error = UnexpectedResponseData m \<or> error = RequestError m
                         \<or> error = TypeError m \<or> error = KeyError m
                    then msg_technical else msg_unknown_failure) @ str_exn error;
                 w1 = w\<lparr>net := stl (net w), requested := requested w @ [0],
                        slept := slept w + RETRY_PERIOD\<rparr>
             in if current_status = p then (current_status, w1)
                else (case shd (telegram w) of
                        Delivered \<Rightarrow> current_status
                      | Refused err \<Rightarrow> msg_not_sent @ msg_send_failed @ err,
                      w1\<lparr>telegram := stl (telegram w),
                         posted := posted w @ [(TELEGRAM_CHAT_ID cfg, current_status)]\<rparr>))"
    unfolding s_def Let_def .
qed (simp_all add: main_def)

theorem main_never_returns_witness:
  "main \<lparr>TELEGRAM_TOKEN = Some ''1:a'', PRACTICUM_TOKEN = None, TELEGRAM_CHAT_ID = Some ''42''\<rparr>
      interp0 TeleBot_colon 2 (fresh_world (sconst (Raises_other ''boom'')) (sconst Delivered))
     = Exited msg_no_tokens (fresh_world (sconst (Raises_other ''boom'')) (sconst Delivered))
   \<and> main \<lparr>TELEGRAM_TOKEN = Some ''abc'', PRACTICUM_TOKEN = Some ''y0_a'',
            TELEGRAM_CHAT_ID = Some ''42''\<rparr>
      interp0 TeleBot_colon 2 (fresh_world (sconst (Raises_other ''boom'')) (sconst Delivered))
     = Crashed (ValueError ''Token must contain a colon'')
         (fresh_world (sconst (Raises_other ''boom'')) (sconst Delivered))
   \<and> main cfg0 interp0 TeleBot_colon 2
        (fresh_world (sconst (Raises_other ''boom'')) (sconst Delivered))
     = Running (msg_unknown_failure @ ''boom'')
         \<lparr>net = sconst (Raises_other ''boom''), telegram = sconst Delivered,
          requested = [0, 0], posted = [(Some ''42'', msg_unknown_failure @ ''boom'')],
          slept = 1200\<rparr>
   \<and> cycle cfg0 interp0 (TeleBot (Some ''1:a''))
        ([], fresh_world (sconst (Raises_RequestException ''timed out'')) (sconst Delivered))
     = (msg_technical @ msg_request_failed @ ''timed out'',
        \<lparr>net = sconst (Raises_RequestException ''timed out''), telegram = sconst Delivered,
         requested = [0],
         posted = [(Some ''42'', msg_technical @ msg_request_failed @ ''timed out'')],
         slept = 600\<rparr>)"
  using main_never_returns [where n = 2 and rt = interp0 and new_bot = TeleBot_colon
      and cfg = "\<lparr>TELEGRAM_TOKEN = Some ''1:a'', PRACTICUM_TOKEN = None,
                  TELEGRAM_CHAT_ID = Some ''42''\<rparr>"
      and w = "fresh_world (sconst (Raises_other ''boom'')) (sconst Delivered)"]
    main_never_returns [where n = 2 and rt = interp0 and new_bot = TeleBot_colon
      and e = "ValueError ''Token must contain a colon''"
      and cfg = "\<lparr>TELEGRAM_TOKEN = Some ''abc'', PRACTICUM_TOKEN = Some ''y0_a'',
                  TELEGRAM_CHAT_ID = Some ''42''\<rparr>"
      and w = "fresh_world (sconst (Raises_other ''boom'')) (sconst Delivered)"]
    main_never_returns [where n = 2 and rt = interp0 and new_bot = TeleBot_colon
      and cfg = cfg0 and b = "TeleBot (Some ''1:a'')"
      and w = "fresh_world (sconst (Raises_other ''boom'')) (sconst Delivered)"]
    main_never_returns [where rt = interp0 and cfg = cfg0 and b = "TeleBot (Some ''1:a'')"
      and p = "[]" and error = "RequestError (msg_request_failed @ ''timed out'')"
      and w = "fresh_world (sconst (Raises_RequestException ''timed out'')) (sconst Delivered)"]
  by (simp add: check_tokens_def cfg0_def TeleBot_colon_def fresh_world_def numeral_2_eq_2
      cycle_def compute_status_def poll_def get_api_answer_def Let_def status_of_failure_def
      notify_def send_message_def RETRY_PERIOD_def msg_technical_def msg_unknown_failure_def)

text \<open>
  The claim as the specification states it, that missing configuration is the only fatal
  condition, fails for a configuration that is complete but whose token the constructor
  of the bot refuses: the process ends with the exception of the constructor.
\<close>

theorem main_constructor_counterexample:
  "check_tokens \<lparr>TELEGRAM_TOKEN = Some ''abc'', PRACTICUM_TOKEN = Some ''y0_a'',
                 TELEGRAM_CHAT_ID = Some ''42''\<rparr>
   \<and> main \<lparr>TELEGRAM_TOKEN = Some ''abc'', PRACTICUM_TOKEN = Some ''y0_a'',
            TELEGRAM_CHAT_ID = Some ''42''\<rparr>
      interp0 TeleBot_colon 1 (fresh_world (sconst (Raises_other ''boom'')) (sconst Delivered))
     = Crashed (ValueError ''Token must contain a colon'')
         (fresh_world (sconst (Raises_other ''boom'')) (sconst Delivered))"
  by (simp add: main_def check_tokens_def TeleBot_colon_def)

text \<open>
  C5. When the status of a cycle differs from \<open>previous_status\<close> and the bot refuses
  the message, the cycle has called the bot once, with the computed status; it ends with
  the could-not-send message as \<open>previous_status\<close>, which it has neither compared nor
  sent; and the loop goes on with the next cycle from that state.
\<close>

theorem failed_notification:
  assumes "fst (compute_status rt w) \<noteq> previous_status"
    and "shd (telegram w) = Refused err"
  shows "cycle cfg rt b (previous_status, w)
      = (msg_not_sent @ msg_send_failed @ err,
         w\<lparr>net := stl (net w), requested := requested w @ [0],
           telegram := stl (telegram w),
           posted := posted w @ [(TELEGRAM_CHAT_ID cfg, fst (compute_status rt w))],
           slept := slept w + RETRY_PERIOD\<rparr>)
    \<and> main_loop cfg rt b (Suc n) (previous_status, w)
      = main_loop cfg rt b n (msg_not_sent @ msg_send_failed @ err,
         w\<lparr>net := stl (net w), requested := requested w @ [0],
           telegram := stl (telegram w),
           posted := posted w @ [(TELEGRAM_CHAT_ID cfg, fst (compute_status rt w))],
           slept := slept w + RETRY_PERIOD\<rparr>)"
proof -
  have "shd (telegram (snd (compute_status rt w))) = Refused err"
    using assms(2) by (simp add: compute_status_world)
  with assms(1) have "cycle cfg rt b (previous_status, w)
      = (msg_not_sent @ msg_send_failed @ err,
         w\<lparr>net := stl (net w), requested := requested w @ [0],
           telegram := stl (telegram w),
           posted := posted w @ [(TELEGRAM_CHAT_ID cfg, fst (compute_status rt w))],
           slept := slept w + RETRY_PERIOD\<rparr>)"
    by (simp add: cycle_eq notify_refused compute_status_world)
  then show ?thesis by simp
qed

theorem failed_notification_witness:
  "cycle cfg0 interp0 (TeleBot (Some ''1:a''))
     ([], fresh_world (sconst (Raises_RequestException ''timed out''))
            (Refused ''blocked'' ## sconst Delivered))
   = (msg_not_sent @ msg_send_failed @ ''blocked'',
      \<lparr>net = sconst (Raises_RequestException ''timed out''), telegram = sconst Delivered,
       requested = [0],
       posted = [(Some ''42'', msg_technical @ msg_request_failed @ ''timed out'')],
       slept = 600\<rparr>)"
  using failed_notification [where cfg = cfg0 and rt = interp0 and b = "TeleBot (Some ''1:a'')"
      and previous_status = "[]" and err = "''blocked''" and n = 0
      and w = "fresh_world (sconst (Raises_RequestException ''timed out''))
            (Refused ''blocked'' ## sconst Delivered)"]
  by (simp add: compute_status_def poll_def get_api_answer_def Let_def fresh_world_def
      status_of_failure_def cfg0_def RETRY_PERIOD_def msg_technical_def)

lemma parse_status_prefix:
  assumes "parse_status rt h = Inr s"
  shows "\<exists>t. s = msg_status_changed @ t"
proof -
  from assms obtain has_name where
    "(if \<not> has_name then Inl (KeyError msg_no_name) else
       and_then (py_contains ''status'' h) (\<lambda>has_status.
         if \<not> has_status then Inl (KeyError msg_no_status) else
       and_then (py_getitem h ''status'') (\<lambda>status.
       and_then (lookup_verdict status) (\<lambda>found.
         case found of
           None \<Rightarrow> Inl (KeyError msg_unknown_status)
         | Some verdict \<Rightarrow>
             and_then (py_getitem h ''homework_name'') (\<lambda>homework_name.
               Inr (msg_status_changed @ py_format rt homework_name
                      @ msg_status_sep @ verdict)))))) = Inr s"
    unfolding parse_status_def by (blast dest: and_then_eq_Inr)
  then obtain has_status where
    "(if \<not> has_status then Inl (KeyError msg_no_status) else
       and_then (py_getitem h ''status'') (\<lambda>status.
       and_then (lookup_verdict status) (\<lambda>found.
         case found of
           None \<Rightarrow> Inl (KeyError msg_unknown_status)
         | Some verdict \<Rightarrow>
             and_then (py_getitem h ''homework_name'') (\<lambda>homework_name.
               Inr (msg_status_changed @ py_format rt homework_name
                      @ msg_status_sep @ verdict))))) = Inr s"
    by (auto split: if_splits dest: and_then_eq_Inr)
  then obtain found where
    "(case found of
           None \<Rightarrow> Inl (KeyError msg_unknown_status)
         | Some verdict \<Rightarrow>
             and_then (py_getitem h ''homework_name'') (\<lambda>homework_name.
               Inr (msg_status_changed @ py_format rt homework_name
                      @ msg_status_sep @ verdict))) = Inr s"
    by (auto split: if_splits dest!: and_then_eq_Inr)
  then show ?thesis
    by (auto split: option.splits dest!: and_then_eq_Inr)
qed

lemma poll_success:
  assumes "fst (poll rt w) = Inr s"
  shows "\<exists>h. parse_status rt h = Inr s"
proof -
  from assms have "and_then (fst (get_api_answer 0 w)) (\<lambda>response.
           and_then (check_response response) (\<lambda>_.
           and_then (get_latest_homework rt response) (\<lambda>homework.
             parse_status rt homework))) = Inr s"
    by (simp add: poll_def split: prod.splits)
  then show ?thesis
    by (blast dest: and_then_eq_Inr)
qed

lemma computed_not_failure: "fst (compute_status rt w) \<noteq> msg_not_sent @ m"
proof (cases "fst (poll rt w)")
  case (Inl error)
  then have "fst (compute_status rt w) = status_of_failure error"
    by (rule compute_status_failure)
  then show ?thesis
    by (simp add: status_of_failure_def msg_technical_def msg_unknown_failure_def
        msg_not_sent_def)
next
  case (Inr s)
  then have "fst (compute_status rt w) = s"
    by (rule compute_status_success)
  moreover from Inr obtain t where "s = msg_status_changed @ t"
    by (blast dest: poll_success parse_status_prefix)
  ultimately show ?thesis
    by (simp add: msg_status_changed_def msg_not_sent_def)
qed

lemma compute_status_keeps:
  "telegram (snd (compute_status rt w)) = telegram w
   \<and> posted (snd (compute_status rt w)) = posted w"
  by (simp add: compute_status_world)

lemma cycle_posted:
  "posted (snd (cycle cfg rt b (p, w)))
     = posted w @ (if fst (compute_status rt w) = p then []
                   else [(TELEGRAM_CHAT_ID cfg, fst (compute_status rt w))])"
  by (simp add: cycle_eq notify_posted compute_status_keeps)

lemma cycle_status:
  "fst (cycle cfg rt b (p, w))
     = (if fst (compute_status rt w) = p then p
        else case shd (telegram w) of
               Delivered \<Rightarrow> fst (compute_status rt w)
             | Refused err \<Rightarrow> msg_not_sent @ msg_send_failed @ err)"
proof (cases "fst (compute_status rt w) = p")
  case True
  then show ?thesis
    by (simp add: cycle_eq notify_def)
next
  case False
  then show ?thesis
    by (cases "shd (telegram w)")
      (simp_all add: cycle_eq notify_delivered notify_refused compute_status_keeps)
qed

text \<open>
  C1, as the code has it. A cycle calls the bot exactly when the status it computed differs
  from \<open>previous_status\<close>, and then once, with that status. Two consecutive cycles that
  compute the same status call the bot not at all when \<open>previous_status\<close> was that
  status already, once when the call of the first cycle is delivered, and twice when it is
  refused: the first cycle then leaves the could-not-send message as \<open>previous_status\<close>,
  from which the status of the second cycle differs.
\<close>

theorem notification_dedup:
  "posted (snd (cycle cfg rt b (p, w)))
      = posted w @ (if fst (compute_status rt w) = p then []
                    else [(TELEGRAM_CHAT_ID cfg, fst (compute_status rt w))])
   \<and> (fst (compute_status rt (snd (cycle cfg rt b (p, w)))) = fst (compute_status rt w) \<longrightarrow>
       posted (snd (cycle cfg rt b (cycle cfg rt b (p, w))))
         = posted w @
            (if fst (compute_status rt w) = p then []
             else if shd (telegram w) = Delivered
               then [(TELEGRAM_CHAT_ID cfg, fst (compute_status rt w))]
             else [(TELEGRAM_CHAT_ID cfg, fst (compute_status rt w)),
                   (TELEGRAM_CHAT_ID cfg, fst (compute_status rt w))]))"
proof (intro conjI impI)
  show "posted (snd (cycle cfg rt b (p, w)))
      = posted w @ (if fst (compute_status rt w) = p then []
                    else [(TELEGRAM_CHAT_ID cfg, fst (compute_status rt w))])"
    by (rule cycle_posted)
next
  assume again:
    "fst (compute_status rt (snd (cycle cfg rt b (p, w)))) = fst (compute_status rt w)"
  define s where "s = fst (compute_status rt w)"
  define st where "st = cycle cfg rt b (p, w)"
  have second: "posted (snd (cycle cfg rt b st))
      = posted (snd st) @ (if s = fst st then [] else [(TELEGRAM_CHAT_ID cfg, s)])"
    using again cycle_posted [of cfg rt b "fst st" "snd st"]
    by (simp add: s_def st_def)
  have first: "posted (snd st)
      = posted w @ (if s = p then [] else [(TELEGRAM_CHAT_ID cfg, s)])"
    by (simp add: s_def st_def cycle_posted)
  have status: "fst st = (if s = p then p
        else case shd (telegram w) of
               Delivered \<Rightarrow> s | Refused err \<Rightarrow> msg_not_sent @ msg_send_failed @ err)"
    unfolding s_def st_def by (rule cycle_status)
  have "posted (snd (cycle cfg rt b st))
      = posted w @
         (if s = p then []
          else if shd (telegram w) = Delivered then [(TELEGRAM_CHAT_ID cfg, s)]
          else [(TELEGRAM_CHAT_ID cfg, s), (TELEGRAM_CHAT_ID cfg, s)])"
  proof (cases "s = p")
    case True
    with first second status show ?thesis by simp
  next
    case False
    show ?thesis
    proof (cases "shd (telegram w)")
      case Delivered
      with False first second status show ?thesis by simp
    next
      case (Refused err)
      have "s \<noteq> msg_not_sent @ msg_send_failed @ err"
        unfolding s_def by (rule computed_not_failure)
      with False Refused first second status show ?thesis by simp
    qed
  qed
  then show "posted (snd (cycle cfg rt b (cycle cfg rt b (p, w))))
      = posted w @
         (if fst (compute_status rt w) = p then []
          else if shd (telegram w) = Delivered
            then [(TELEGRAM_CHAT_ID cfg, fst (compute_status rt w))]
          else [(TELEGRAM_CHAT_ID cfg, fst (compute_status rt w)),
                (TELEGRAM_CHAT_ID cfg, fst (compute_status rt w))])"
    by (simp add: s_def st_def)
qed

theorem notification_dedup_witness:
  "fst (compute_status interp0 (snd (cycle cfg0 interp0 (TeleBot (Some ''1:a''))
          ([], fresh_world (sconst (Raises_RequestException ''timed out'')) (sconst Delivered)))))
     = fst (compute_status interp0
          (fresh_world (sconst (Raises_RequestException ''timed out'')) (sconst Delivered)))
   \<and> posted (snd (cycle cfg0 interp0 (TeleBot (Some ''1:a''))
        (cycle cfg0 interp0 (TeleBot (Some ''1:a''))
          ([], fresh_world (sconst (Raises_RequestException ''timed out''))
                 (sconst Delivered)))))
     = [(Some ''42'', msg_technical @ msg_request_failed @ ''timed out'')]"
proof -
  have same: "fst (compute_status interp0 (snd (cycle cfg0 interp0 (TeleBot (Some ''1:a''))
          ([], fresh_world (sconst (Raises_RequestException ''timed out'')) (sconst Delivered)))))
     = fst (compute_status interp0
          (fresh_world (sconst (Raises_RequestException ''timed out'')) (sconst Delivered)))"
    by (simp add: cycle_def compute_status_def poll_def get_api_answer_def Let_def
        fresh_world_def status_of_failure_def notify_def send_message_def cfg0_def
        msg_technical_def)
  have status: "fst (compute_status interp0
          (fresh_world (sconst (Raises_RequestException ''timed out'')) (sconst Delivered)))
     = msg_technical @ msg_request_failed @ ''timed out''"
    by (simp add: compute_status_def poll_def get_api_answer_def Let_def fresh_world_def
        status_of_failure_def)
  from notification_dedup [where cfg = cfg0 and rt = interp0 and b = "TeleBot (Some ''1:a'')"
      and p = "[]"
      and w = "fresh_world (sconst (Raises_RequestException ''timed out'')) (sconst Delivered)"]
    status same show ?thesis
    by (simp add: fresh_world_def cfg0_def msg_technical_def)
qed

text \<open>
  The claim as the specification states it, exactly one call for two cycles of the same
  status, fails when the bot refuses the first call: the two cycles below compute the same
  status and call the bot twice.
\<close>

theorem notification_dedup_counterexample:
  "fst (compute_status interp0 (snd (cycle cfg0 interp0 (TeleBot (Some ''1:a''))
          ([], fresh_world (sconst (Raises_RequestException ''timed out''))
                 (Refused ''blocked'' ## sconst Delivered)))))
     = fst (compute_status interp0
          (fresh_world (sconst (Raises_RequestException ''timed out''))
             (Refused ''blocked'' ## sconst Delivered)))
   \<and> posted (snd (cycle cfg0 interp0 (TeleBot (Some ''1:a''))
        (cycle cfg0 interp0 (TeleBot (Some ''1:a''))
          ([], fresh_world (sconst (Raises_RequestException ''timed out''))
                 (Refused ''blocked'' ## sconst Delivered)))))
     = [(Some ''42'', msg_technical @ msg_request_failed @ ''timed out''),
        (Some ''42'', msg_technical @ msg_request_failed @ ''timed out'')]"
  by (simp add: cycle_def compute_status_def poll_def get_api_answer_def Let_def
      fresh_world_def status_of_failure_def notify_def send_message_def cfg0_def
      msg_technical_def msg_not_sent_def)

end
